theory Spec2Isabelle
  imports Main
begin

section \<open>Python values, strings and dictionaries\<close>

text \<open>
  Strings are lists of 8-bit characters, read as the code points \<open>0\<close> to \<open>255\<close>.
  White space is what \<^verbatim>\<open>str.strip()\<close> removes in that range. \<^verbatim>\<open>str.lower\<close> maps the
  capitals \<open>A\<close> to \<open>Z\<close> and the accented capitals \<open>0xC0\<close> to \<open>0xDE\<close> (the
  multiplication sign \<open>0xD7\<close> apart) to the letter 32 places up, and nothing else.
  \<^verbatim>\<open>str.upper\<close> maps the small letters \<open>a\<close> to \<open>z\<close> and \<open>0xE0\<close> to \<open>0xFE\<close> (the
  division sign \<open>0xF7\<close> apart) 32 places down; the three characters whose capital
  form lies outside the range (\<open>0xB5\<close>, \<open>0xDF\<close>, \<open>0xFF\<close>) are kept as they are: the
  program compares upper-cased text only with the constants \<^verbatim>\<open>KEY\<close> and
  \<^verbatim>\<open>PARENT_KEY\<close>, which a text holding one of the three equals neither way.
  A spreadsheet cell is \<open>NaN\<close> (empty), text or an integer; floating point cells
  are outside the model.
\<close>

datatype pyval = NaN | PStr string | PInt int

definition NL :: char where
  "NL = CHR 0x0A"

definition py_isspace :: "char \<Rightarrow> bool" where
  "py_isspace c = (let n = (of_char c :: nat) in
     (9 \<le> n \<and> n \<le> 13) \<or> (28 \<le> n \<and> n \<le> 32) \<or> n = 133 \<or> n = 160)"

definition py_lstrip :: "string \<Rightarrow> string" where
  "py_lstrip s = dropWhile py_isspace s"

definition py_strip :: "string \<Rightarrow> string" where
  "py_strip s = rev (dropWhile py_isspace (rev (dropWhile py_isspace s)))"

definition lower_char :: "char \<Rightarrow> char" where
  "lower_char c = (let n = (of_char c :: nat) in
     if (65 \<le> n \<and> n \<le> 90) \<or> (192 \<le> n \<and> n \<le> 222 \<and> n \<noteq> 215)
     then char_of (n + 32) else c)"

definition upper_char :: "char \<Rightarrow> char" where
  "upper_char c = (let n = (of_char c :: nat) in
     if (97 \<le> n \<and> n \<le> 122) \<or> (224 \<le> n \<and> n \<le> 254 \<and> n \<noteq> 247)
     then char_of (n - 32) else c)"

definition py_lower :: "string \<Rightarrow> string" where
  "py_lower s = map lower_char s"

definition py_upper :: "string \<Rightarrow> string" where
  "py_upper s = map upper_char s"

text \<open>\<^verbatim>\<open>s.startswith(p)\<close> and \<^verbatim>\<open>p in s\<close>.\<close>

definition py_startswith :: "string \<Rightarrow> string \<Rightarrow> bool" where
  "py_startswith s p = (take (length p) s = p)"

fun py_in :: "string \<Rightarrow> string \<Rightarrow> bool" where
  "py_in p [] = (p = [])"
| "py_in p (c # s) = (py_startswith (c # s) p \<or> py_in p s)"

text \<open>
  \<^verbatim>\<open>s.split(sep)\<close> and \<^verbatim>\<open>s.replace(old, new)\<close> for a non-empty separator: the
  scan is left to right and matches do not overlap. (Python raises on an empty
  separator in \<open>split\<close>; the program never passes one.)
\<close>

function py_split :: "string \<Rightarrow> string \<Rightarrow> string list" where
  "py_split sep s =
     (if sep = [] then [s]
      else if s = [] then [[]]
      else if py_startswith s sep then [] # py_split sep (drop (length sep) s)
      else (case py_split sep (tl s) of
              [] \<Rightarrow> [[hd s]]
            | w # ws \<Rightarrow> (hd s # w) # ws))"
  by pat_completeness auto
termination
  by (relation "measure (\<lambda>(sep, s). length s)") auto

declare py_split.simps [simp del]

function py_replace :: "string \<Rightarrow> string \<Rightarrow> string \<Rightarrow> string" where
  "py_replace old new s =
     (if old = [] then s
      else if s = [] then []
      else if py_startswith s old then new @ py_replace old new (drop (length old) s)
      else hd s # py_replace old new (tl s))"
  by pat_completeness auto
termination
  by (relation "measure (\<lambda>(old, new, s). length s)") auto

declare py_replace.simps [simp del]

fun py_join :: "string \<Rightarrow> string list \<Rightarrow> string" where
  "py_join sep [] = []"
| "py_join sep [x] = x"
| "py_join sep (x # y # ys) = x @ sep @ py_join sep (y # ys)"

text \<open>Decimal rendering of integers, as \<^verbatim>\<open>str(n)\<close> gives it.\<close>

definition digit_char :: "nat \<Rightarrow> char" where
  "digit_char d = char_of (48 + d)"

fun str_nat :: "nat \<Rightarrow> string" where
  "str_nat n = (if n < 10 then [digit_char n] else str_nat (n div 10) @ [digit_char (n mod 10)])"

declare str_nat.simps [simp del]

definition str_int :: "int \<Rightarrow> string" where
  "str_int i = (if i < 0 then CHR ''-'' # str_nat (nat (- i)) else str_nat (nat i))"

fun py_str :: "pyval \<Rightarrow> string" where
  "py_str NaN = ''nan''"
| "py_str (PStr s) = s"
| "py_str (PInt i) = str_int i"

text \<open>Truthiness: the empty string and zero are false, NaN is a non-zero float.\<close>

fun truthy :: "pyval \<Rightarrow> bool" where
  "truthy NaN = True"
| "truthy (PStr s) = (s \<noteq> [])"
| "truthy (PInt i) = (i \<noteq> 0)"

definition notna :: "pyval \<Rightarrow> bool" where
  "notna v = (v \<noteq> NaN)"

text \<open>
  A \<^verbatim>\<open>dict\<close> keeps insertion order: assigning to a key that is present replaces
  the value where it stands, a new key goes to the end.
\<close>

type_synonym 'v dict = "(string \<times> 'v) list"

fun dict_set :: "'v dict \<Rightarrow> string \<Rightarrow> 'v \<Rightarrow> 'v dict" where
  "dict_set [] k v = [(k, v)]"
| "dict_set ((k', v') # d) k v = (if k' = k then (k, v) # d else (k', v') # dict_set d k v)"

definition dict_get :: "'v dict \<Rightarrow> string \<Rightarrow> 'v \<Rightarrow> 'v" where
  "dict_get d k dflt = (case map_of d k of None \<Rightarrow> dflt | Some v \<Rightarrow> v)"

definition dict_has :: "'v dict \<Rightarrow> string \<Rightarrow> bool" where
  "dict_has d k = (map_of d k \<noteq> None)"

fun dict_update :: "'v dict \<Rightarrow> 'v dict \<Rightarrow> 'v dict" where
  "dict_update d [] = d"
| "dict_update d ((k, v) # e) = dict_update (dict_set d k v) e"

section \<open>The ranked multiselect field\<close>

definition reason_key :: "nat \<Rightarrow> string" where
  "reason_key i = ''bus_info_needs_rank_reason'' @ str_nat i"

text \<open>The loop of \<^verbatim>\<open>process_bus_info_needs_ranking\<close> over the cleaned items.\<close>

fun processed_items :: "string \<Rightarrow> string list \<Rightarrow> string list" where
  "processed_items bus_info_needs_o [] = []"
| "processed_items bus_info_needs_o (item # items) =
     (let item_clean = py_strip item in
      if item_clean \<noteq> [] \<and> py_lower item_clean \<notin> set [''na'', '''']
      then (if py_lower item_clean \<in> set [''others'', ''specify'']
            then (if bus_info_needs_o \<noteq> [] \<and> py_lower bus_info_needs_o \<notin> set [''nan'', ''na'', '''']
                  then ''Others, specify: '' @ bus_info_needs_o
                  else ''Others, specify'')
            else item_clean) # processed_items bus_info_needs_o items
      else processed_items bus_info_needs_o items)"

definition ranked_items :: "pyval dict \<Rightarrow> string list" where
  "ranked_items data_row =
     (let bus_info_needs = py_strip (py_str (dict_get data_row ''bus_info_needs'' (PStr '''')));
          bus_info_needs_o = py_strip (py_str (dict_get data_row ''bus_info_needs_o'' (PStr '''')));
          items = map py_strip (filter (\<lambda>item. py_strip item \<noteq> []) (py_split '','' bus_info_needs))
      in processed_items bus_info_needs_o items)"

definition reason_slot :: "pyval dict \<Rightarrow> nat \<Rightarrow> nat \<Rightarrow> pyval" where
  "reason_slot data_row n i =
     (if i \<le> n
      then (if dict_has data_row (reason_key i)
               \<and> py_strip (py_str (dict_get data_row (reason_key i) (PStr ''''))) \<notin> set ['''', ''nan'', ''NA'']
            then PStr (py_str (dict_get data_row (reason_key i) (PStr '''')))
            else PStr (''{'' @ reason_key i @ ''}''))
      else PStr '''')"

definition process_bus_info_needs_ranking :: "pyval dict \<Rightarrow> pyval dict" where
  "process_bus_info_needs_ranking data_row =
     (let bus_info_needs = py_strip (py_str (dict_get data_row ''bus_info_needs'' (PStr '''')))
      in if bus_info_needs = [] \<or> py_lower bus_info_needs \<in> set [''nan'', ''na'', '''']
         then (''bus_info_needs'', PStr '''') # (''bus_info_needs_rank'', PStr '''')
              # map (\<lambda>i. (reason_key i, PStr '''')) [1 ..< 10]
         else (let items = ranked_items data_row;
                   rank_numbers = map str_nat [1 ..< length items + 1]
               in (''bus_info_needs'', PStr (py_join [NL] items))
                  # (''bus_info_needs_rank'', PStr (py_join [NL] rank_numbers))
                  # map (\<lambda>i. (reason_key i, reason_slot data_row (length items) i)) [1 ..< 10]))"

section \<open>Documents: paragraphs, runs and nested tables\<close>

text \<open>
  A paragraph is its sequence of runs; a run is text or an inline picture (given by
  the path of the image file). The text of a paragraph is the text of its runs, and
  assigning to it leaves one text run. A table cell holds paragraphs and nested
  tables; a table knows its grid width, which is the number of cells of a row that
  \<^verbatim>\<open>add_row\<close> appends.
\<close>

datatype run = RText string | RPicture string

type_synonym para = "run list"

fun run_text :: "run \<Rightarrow> string" where
  "run_text (RText s) = s"
| "run_text (RPicture p) = []"

definition para_text :: "para \<Rightarrow> string" where
  "para_text p = concat (map run_text p)"

definition set_para_text :: "string \<Rightarrow> para" where
  "set_para_text s = [RText s]"

datatype tcell = TCell (cell_paragraphs: "para list") (cell_tables: "tbl list")
  and tbl = Tbl (tbl_ncols: nat) (tbl_rows: "tcell list list")

record document =
  doc_paragraphs :: "para list"
  doc_tables :: "tbl list"

definition cell_text :: "tcell \<Rightarrow> string" where
  "cell_text c = py_join [NL] (map para_text (cell_paragraphs c))"

text \<open>Assigning \<^verbatim>\<open>cell.text\<close> replaces the whole content by one paragraph.\<close>

definition set_cell_text :: "string \<Rightarrow> tcell" where
  "set_cell_text s = TCell [set_para_text s] []"

definition new_row :: "nat \<Rightarrow> tcell list" where
  "new_row n = replicate n (TCell [[]] [])"

text \<open>\<^verbatim>\<open>if len(cells) > j: cells[j].text = s\<close>\<close>

definition put_cell :: "nat \<Rightarrow> string \<Rightarrow> tcell list \<Rightarrow> tcell list" where
  "put_cell j s cells = (if length cells > j then cells[j := set_cell_text s] else cells)"

text \<open>
  \<^verbatim>\<open>while len(table.rows) > h: table._tbl.remove(table.rows[-1]._tr)\<close>
\<close>

function remove_data_rows :: "nat \<Rightarrow> tcell list list \<Rightarrow> tcell list list" where
  "remove_data_rows h rows =
     (if length rows > h then remove_data_rows h (butlast rows) else rows)"
  by pat_completeness auto
termination
  by (relation "measure (\<lambda>(h, rows). length rows)") auto

declare remove_data_rows.simps [simp del]

text \<open>The text of the first two rows, by which a table is recognised.\<close>

definition first_two_rows_text :: "tbl \<Rightarrow> string" where
  "first_two_rows_text t = py_join '' '' (map cell_text (concat (take 2 (tbl_rows t))))"

section \<open>The ranked-needs table\<close>

definition is_bus_info_needs_table :: "string \<Rightarrow> bool" where
  "is_bus_info_needs_table text =
     (py_in ''{bus_info_needs}'' text
      \<or> py_in ''What types of information would be helpful'' text
      \<or> py_in ''Information Needs'' text)"

definition bus_info_needs_row :: "pyval dict \<Rightarrow> nat \<Rightarrow> nat \<Rightarrow> string \<Rightarrow> tcell list" where
  "bus_info_needs_row data_row n i item =
     (let cells = new_row n;
          cells = put_cell 0 (py_strip item) cells;
          cells = put_cell 1 (str_nat i) cells;
          cells = put_cell 2
            (if dict_has data_row (reason_key i)
                \<and> py_strip (py_str (dict_get data_row (reason_key i) (PStr ''''))) \<notin> set ['''', ''nan'', ''NA'']
             then py_str (dict_get data_row (reason_key i) (PStr ''''))
             else '''') cells
      in cells)"

fun bus_info_needs_rows :: "pyval dict \<Rightarrow> nat \<Rightarrow> nat \<Rightarrow> string list \<Rightarrow> tcell list list" where
  "bus_info_needs_rows data_row n i [] = []"
| "bus_info_needs_rows data_row n i (item # items) =
     (if py_strip item \<noteq> []
      then bus_info_needs_row data_row n i item # bus_info_needs_rows data_row n (i + 1) items
      else bus_info_needs_rows data_row n (i + 1) items)"

definition populate_bus_info_needs_table :: "tbl \<Rightarrow> pyval dict \<Rightarrow> tbl" where
  "populate_bus_info_needs_table table data_row =
     (let ranked_data = process_bus_info_needs_ranking data_row;
          items_text = py_str (dict_get ranked_data ''bus_info_needs'' (PStr ''''))
      in if items_text = [] then table
         else (let items = py_split [NL] items_text;
                   header_rows = 2
               in Tbl (tbl_ncols table)
                    (remove_data_rows header_rows (tbl_rows table)
                     @ bus_info_needs_rows data_row (tbl_ncols table) 1 items)))"

section \<open>Data frames and the converter's state\<close>

text \<open>
  A data frame read with \<^verbatim>\<open>header=None\<close> is a rectangular list of rows (every
  row has one cell per column) whose column labels are the positions \<open>0, 1, \<dots>\<close>.
  The converter object carries the caches, the image folder and the entry that
  \<^verbatim>\<open>lru_cache\<close> keeps for the call of \<^verbatim>\<open>find_placeholders\<close> without a document.
\<close>

type_synonym dataframe = "pyval list list"

type_synonym record_row = "pyval dict"

record converter =
  placeholders_cache :: "string list option"
  additional_data_cache :: "record_row list dict"
  column_mapping_cache :: "nat dict option"
  image_folder_path :: "string option"
  find_placeholders_memo :: "string list option"

section \<open>Column mapping\<close>

text \<open>
  The inner loop of \<^verbatim>\<open>find_column_mapping\<close> over the cells of one row, with the
  column position, and the outer loop over the search rows; both stop at the first
  match.
\<close>

definition cell_is :: "string \<Rightarrow> pyval \<Rightarrow> bool" where
  "cell_is placeholder cell_value =
     (notna cell_value \<and> py_lower (py_strip (py_str cell_value)) = py_lower placeholder)"

fun find_in_row :: "string \<Rightarrow> pyval list \<Rightarrow> nat \<Rightarrow> nat option" where
  "find_in_row placeholder [] col_idx = None"
| "find_in_row placeholder (cell_value # cells) col_idx =
     (if cell_is placeholder cell_value then Some col_idx
      else find_in_row placeholder cells (col_idx + 1))"

fun find_in_rows :: "string \<Rightarrow> pyval list list \<Rightarrow> nat option" where
  "find_in_rows placeholder [] = None"
| "find_in_rows placeholder (row # rows) =
     (case find_in_row placeholder row 0 of
        Some col \<Rightarrow> Some col
      | None \<Rightarrow> find_in_rows placeholder rows)"

definition not_found_warning :: "string \<Rightarrow> string" where
  "not_found_warning placeholder =
     ''Warning: Placeholder '' @ [CHR 0x27] @ placeholder @ [CHR 0x27]
       @ '' not found in any of the first 4 rows''"

text \<open>The loop over the placeholders: the mapping so far and the lines printed.\<close>

fun mapping_loop :: "dataframe \<Rightarrow> string list \<Rightarrow> nat dict \<Rightarrow> string list
    \<Rightarrow> nat dict \<times> string list" where
  "mapping_loop df [] column_mapping printed = (column_mapping, printed)"
| "mapping_loop df (placeholder # placeholders) column_mapping printed =
     (let search_rows = min 4 (length df) in
      case find_in_rows placeholder (take search_rows df) of
        Some col_name \<Rightarrow>
          mapping_loop df placeholders (dict_set column_mapping placeholder col_name) printed
      | None \<Rightarrow>
          mapping_loop df placeholders column_mapping (printed @ [not_found_warning placeholder]))"

definition dict_truthy :: "'v dict option \<Rightarrow> bool" where
  "dict_truthy c = (case c of None \<Rightarrow> False | Some d \<Rightarrow> d \<noteq> [])"

text \<open>
  \<^verbatim>\<open>find_column_mapping\<close> returns the mapping, the converter with the cache
  assigned, and the warnings printed.
\<close>

definition find_column_mapping :: "converter \<Rightarrow> dataframe \<Rightarrow> string list
    \<Rightarrow> nat dict \<times> converter \<times> string list" where
  "find_column_mapping self df placeholders =
     (if dict_truthy (column_mapping_cache self)
      then (the (column_mapping_cache self), self, [])
      else (case mapping_loop df placeholders [] [] of
              (column_mapping, printed) \<Rightarrow>
                (column_mapping, self\<lparr>column_mapping_cache := Some column_mapping\<rparr>, printed)))"

text \<open>The cell at row \<open>r\<close>, column \<open>c\<close> of the frame carries the placeholder's name.\<close>

definition cell_matches :: "dataframe \<Rightarrow> string \<Rightarrow> nat \<Rightarrow> nat \<Rightarrow> bool" where
  "cell_matches df placeholder r c =
     (r < length df \<and> c < length (df ! r) \<and> cell_is placeholder (df ! r ! c))"

text \<open>
  The first matching cell of the first four rows in reading order: top to bottom,
  and left to right within a row.
\<close>

definition first_match :: "dataframe \<Rightarrow> string \<Rightarrow> nat \<Rightarrow> nat \<Rightarrow> bool" where
  "first_match df placeholder r c =
     (r < 4 \<and> cell_matches df placeholder r c
      \<and> (\<forall>c' < c. \<not> cell_matches df placeholder r c')
      \<and> (\<forall>r' < r. \<forall>c'. \<not> cell_matches df placeholder r' c'))"

section \<open>The auxiliary index\<close>

text \<open>
  The position of the first cell of row 3 that is the given marker
  (\<^verbatim>\<open>PARENT_KEY\<close> in a linked file, \<^verbatim>\<open>KEY\<close> in the main file), if the frame has
  more than three rows.
\<close>

fun find_marker :: "string \<Rightarrow> pyval list \<Rightarrow> nat \<Rightarrow> nat option" where
  "find_marker marker [] col_idx = None"
| "find_marker marker (cell_value # cells) col_idx =
     (if notna cell_value \<and> py_upper (py_strip (py_str cell_value)) = marker then Some col_idx
      else find_marker marker cells (col_idx + 1))"

definition marker_column :: "string \<Rightarrow> dataframe \<Rightarrow> nat option" where
  "marker_column marker df = (if length df > 3 then find_marker marker (df ! 3) 0 else None)"

text \<open>The dictionary from header to value made for one data row.\<close>

fun make_row_data :: "pyval list \<Rightarrow> pyval list \<Rightarrow> nat \<Rightarrow> record_row \<Rightarrow> record_row" where
  "make_row_data [] row idx row_data = row_data"
| "make_row_data (header # headers) row idx row_data =
     make_row_data headers row (idx + 1)
       (if notna header
        then dict_set row_data (py_strip (py_str header))
               (if notna (row ! idx) then row ! idx else PStr '''')
        else row_data)"

text \<open>The loop over the data rows of one linked file, updating the shared cache.\<close>

fun group_rows :: "nat \<Rightarrow> pyval list \<Rightarrow> dataframe \<Rightarrow> record_row list dict \<Rightarrow> record_row list dict" where
  "group_rows parent_key_col headers [] cache = cache"
| "group_rows parent_key_col headers (row # data_rows) cache =
     group_rows parent_key_col headers data_rows
       (if notna (row ! parent_key_col)
        then (let key_value = py_strip (py_str (row ! parent_key_col));
                  cache = (if \<not> dict_has cache key_value then dict_set cache key_value [] else cache)
              in dict_set cache key_value
                   (dict_get cache key_value [] @ [make_row_data headers row 0 []]))
        else cache)"

text \<open>
  A linked file that cannot be read raises inside the \<^verbatim>\<open>try\<close>; the error is
  printed and the loop goes on with the next file. Such a file is \<open>None\<close> here.
\<close>

fun preload_files :: "dataframe option list \<Rightarrow> record_row list dict \<Rightarrow> record_row list dict" where
  "preload_files [] cache = cache"
| "preload_files (file # files) cache =
     preload_files files
       (case file of
          None \<Rightarrow> cache
        | Some df \<Rightarrow>
            (case marker_column ''PARENT_KEY'' df of
               None \<Rightarrow> cache
             | Some parent_key_col \<Rightarrow> group_rows parent_key_col (df ! 3) (drop 4 df) cache))"

definition preload_additional_data :: "converter \<Rightarrow> dataframe option list \<Rightarrow> converter" where
  "preload_additional_data self additional_excel =
     self\<lparr>additional_data_cache := preload_files additional_excel []\<rparr>"

definition get_additional_data_for_key_optimized :: "converter \<Rightarrow> pyval \<Rightarrow> record_row list" where
  "get_additional_data_for_key_optimized self key_value =
     dict_get (additional_data_cache self) (py_strip (py_str key_value)) []"

text \<open>
  The records one linked file contributes under a key: its data rows, in file order,
  whose trimmed \<^verbatim>\<open>PARENT_KEY\<close> cell is that key.
\<close>

definition file_records :: "string \<Rightarrow> dataframe option \<Rightarrow> record_row list" where
  "file_records key file =
     (case file of
        None \<Rightarrow> []
      | Some df \<Rightarrow>
          (case marker_column ''PARENT_KEY'' df of
             None \<Rightarrow> []
           | Some c \<Rightarrow>
               map (\<lambda>row. make_row_data (df ! 3) row 0 [])
                 (filter (\<lambda>row. notna (row ! c) \<and> py_strip (py_str (row ! c)) = key) (drop 4 df))))"

section \<open>The outside world\<close>

text \<open>
  What the program reads from its platform and its files is gathered in one record:
  the path separators of the platform and its \<^verbatim>\<open>os.path.join\<close> (which also stands
  for the \<^verbatim>\<open>/\<close> of \<^verbatim>\<open>pathlib\<close>), which paths exist, whether a picture file can be
  embedded, the rendering of a floating-point total of the given values (floating
  point is not modelled), the outcome of opening the template and the main workbook,
  whether saving a document at a path fails, the folder the user picks, the time at
  which the pool finishes each job, and the order in which a \<^verbatim>\<open>set\<close> of strings is
  listed.
\<close>

datatype pyerror =
  TypeError string | KeyError string | IndexError string | LoadError string | SaveError string

fun error_text :: "pyerror \<Rightarrow> string" where
  "error_text (TypeError s) = s"
| "error_text (KeyError s) = s"
| "error_text (IndexError s) = s"
| "error_text (LoadError s) = s"
| "error_text (SaveError s) = s"

record world =
  os_seps :: "char list"
  os_join :: "string \<Rightarrow> string \<Rightarrow> string"
  os_exists :: "string \<Rightarrow> bool"
  picture_ok :: "string \<Rightarrow> bool"
  float_total_text :: "pyval list \<Rightarrow> string"
  load_template :: "pyerror + document"
  read_excel :: "pyerror + dataframe"
  save_document :: "string \<Rightarrow> document \<Rightarrow> pyerror option"
  ask_directory :: "string"
  finish_time :: "nat \<Rightarrow> nat"
  set_order :: "string list \<Rightarrow> string list"

text \<open>\<^verbatim>\<open>s.rfind\<close> for a class of characters: the last position, or \<open>-1\<close>.\<close>

definition rfind :: "(char \<Rightarrow> bool) \<Rightarrow> string \<Rightarrow> int" where
  "rfind P s = (case filter (\<lambda>i. P (s ! i)) (rev [0 ..< length s]) of
                  [] \<Rightarrow> - 1
                | i # _ \<Rightarrow> int i)"

text \<open>
  \<^verbatim>\<open>os.path.splitext\<close>: the extension starts at the last dot of the last path
  component, unless only dots stand before it in that component.
\<close>

definition splitext :: "char list \<Rightarrow> string \<Rightarrow> string \<times> string" where
  "splitext seps p =
     (let sepIndex = rfind (\<lambda>c. c \<in> set seps) p;
          dotIndex = rfind (\<lambda>c. c = CHR ''.'') p
      in if dotIndex > sepIndex
            \<and> list_ex (\<lambda>filenameIndex. p ! filenameIndex \<noteq> CHR ''.'')
                 [nat (sepIndex + 1) ..< nat dotIndex]
         then (take (nat dotIndex) p, drop (nat dotIndex) p)
         else (p, []))"

definition basename :: "char list \<Rightarrow> string \<Rightarrow> string" where
  "basename seps p = drop (nat (rfind (\<lambda>c. c \<in> set seps) p + 1)) p"

definition folder_configured :: "converter \<Rightarrow> bool" where
  "folder_configured self = (case image_folder_path self of None \<Rightarrow> False | Some f \<Rightarrow> f \<noteq> [])"

definition image_extensions :: "string list" where
  "image_extensions = [''.png'', ''.jpg'', ''.jpeg'', ''.gif'', ''.bmp'', ''.tiff'', ''.webp'']"

section \<open>Substitution in paragraphs and tables\<close>

text \<open>
  \<^verbatim>\<open>run = paragraph.add_run(); run.add_picture(path)\<close> inside a \<^verbatim>\<open>try\<close>: when
  the picture cannot be embedded the empty run stays and a run with the given label
  follows.
\<close>

definition picture_runs :: "world \<Rightarrow> string \<Rightarrow> string \<Rightarrow> run list" where
  "picture_runs w image_path label =
     (if picture_ok w image_path then [RPicture image_path]
      else [RText '''', RText (label @ basename (os_seps w) image_path @ '']'')])"

text \<open>
  \<^verbatim>\<open>replace_image_in_paragraph\<close>: \<open>None\<close> is the result \<^verbatim>\<open>False\<close> (the paragraph is
  left alone), \<open>Some\<close> the rebuilt paragraph with the result \<^verbatim>\<open>True\<close>.
\<close>

definition replace_image_in_paragraph :: "world \<Rightarrow> para \<Rightarrow> string \<Rightarrow> string \<Rightarrow> para option" where
  "replace_image_in_paragraph w paragraph image_path placeholder_name =
     (let token = ''{'' @ placeholder_name @ ''}'' in
      if py_in token (para_text paragraph)
      then (let text_parts = py_split token (para_text paragraph);
                before_text = hd text_parts;
                after_text = (if length text_parts > 1 then text_parts ! 1 else '''')
            in Some ((if before_text \<noteq> [] then [RText before_text] else [])
                     @ picture_runs w image_path ''[Image not found: ''
                     @ (if after_text \<noteq> [] then [RText after_text] else [])))
      else None)"

text \<open>
  The loop over \<^verbatim>\<open>[''] + image_extensions\<close>: the name as given first, then the
  name without its extension followed by each extension; it stops at the first path
  that exists and takes the picture.
\<close>

definition test_filename :: "world \<Rightarrow> string \<Rightarrow> string \<Rightarrow> string" where
  "test_filename w image_filename ext =
     (if ext = [] then image_filename
      else fst (splitext (os_seps w) image_filename) @ ext)"

fun image_loop :: "world \<Rightarrow> string \<Rightarrow> string \<Rightarrow> string list \<Rightarrow> para \<Rightarrow> para option" where
  "image_loop w folder image_filename [] paragraph = None"
| "image_loop w folder image_filename (ext # exts) paragraph =
     (let image_path = os_join w folder (test_filename w image_filename ext) in
      if os_exists w image_path
      then (case replace_image_in_paragraph w paragraph image_path ''resp_pix'' of
              Some paragraph' \<Rightarrow> Some paragraph'
            | None \<Rightarrow> image_loop w folder image_filename exts paragraph)
      else image_loop w folder image_filename exts paragraph)"

text \<open>The plain substitution: every key of the row in turn, every occurrence.\<close>

fun replace_keys :: "pyval dict \<Rightarrow> string \<Rightarrow> string" where
  "replace_keys [] new_text = new_text"
| "replace_keys ((key, val) # items) new_text =
     replace_keys items (py_replace (''{'' @ key @ ''}'') (py_str val) new_text)"

definition replace_text_in_paragraph :: "pyval dict \<Rightarrow> para \<Rightarrow> para" where
  "replace_text_in_paragraph data_row paragraph =
     (let original_text = para_text paragraph;
          new_text = replace_keys data_row original_text
      in if new_text \<noteq> original_text then set_para_text new_text else paragraph)"

definition replace_in_paragraph :: "world \<Rightarrow> converter \<Rightarrow> pyval dict \<Rightarrow> para \<Rightarrow> para" where
  "replace_in_paragraph w self data_row paragraph =
     (let original_text = para_text paragraph in
      if py_in ''{'' original_text
      then (if folder_configured self \<and> dict_has data_row ''resp_pix''
               \<and> py_in ''{resp_pix}'' original_text
            then (let image_filename = py_strip (py_str (dict_get data_row ''resp_pix'' (PStr ''''))) in
                  if image_filename \<noteq> [] \<and> py_lower image_filename \<noteq> ''nan''
                  then (case image_loop w (the (image_folder_path self)) image_filename
                               ('''' # image_extensions) paragraph of
                          Some paragraph' \<Rightarrow> paragraph'
                        | None \<Rightarrow> replace_text_in_paragraph data_row paragraph)
                  else replace_text_in_paragraph data_row paragraph)
            else replace_text_in_paragraph data_row paragraph)
      else paragraph)"

fun replace_in_table :: "world \<Rightarrow> converter \<Rightarrow> pyval dict \<Rightarrow> tbl \<Rightarrow> tbl"
  and replace_in_cell :: "world \<Rightarrow> converter \<Rightarrow> pyval dict \<Rightarrow> tcell \<Rightarrow> tcell" where
  "replace_in_table w self data_row (Tbl n rows) =
     (if is_bus_info_needs_table (first_two_rows_text (Tbl n rows))
      then populate_bus_info_needs_table (Tbl n rows) data_row
      else Tbl n (map (map (replace_in_cell w self data_row)) rows))"
| "replace_in_cell w self data_row (TCell ps ts) =
     TCell (map (replace_in_paragraph w self data_row) ps)
           (map (replace_in_table w self data_row) ts)"

text \<open>
  \<^verbatim>\<open>replace_placeholders_optimized\<close> changes the document and the row dictionary
  (the ranking keys are merged into it); both are returned.
\<close>

definition replace_placeholders_optimized :: "world \<Rightarrow> converter \<Rightarrow> document \<Rightarrow> pyval dict
    \<Rightarrow> document \<times> pyval dict" where
  "replace_placeholders_optimized w self doc data_row =
     (let data_row = (if dict_has data_row ''bus_info_needs''
                      then dict_update data_row (process_bus_info_needs_ranking data_row)
                      else data_row)
      in (\<lparr>doc_paragraphs = map (replace_in_paragraph w self data_row) (doc_paragraphs doc),
           doc_tables = map (replace_in_table w self data_row) (doc_tables doc)\<rparr>,
          data_row))"

section \<open>The final sweep\<close>

text \<open>
  One attempt of the pattern \<^verbatim>\<open>\{[^}]+\}\<close> at the head of a string: an opening
  brace, then as many characters other than a closing brace as there are (at least
  one), then a closing brace. The result is what follows the match.
\<close>

definition match_token :: "string \<Rightarrow> string option" where
  "match_token s =
     (case s of
        [] \<Rightarrow> None
      | c # rest \<Rightarrow>
          if c = CHR ''{''
          then (let name = takeWhile (\<lambda>x. x \<noteq> CHR ''}'') rest;
                    after = dropWhile (\<lambda>x. x \<noteq> CHR ''}'') rest
                in if name \<noteq> [] \<and> after \<noteq> [] then Some (tl after) else None)
          else None)"

text \<open>
  \<^verbatim>\<open>placeholder_pattern.sub('', text)\<close>: the scan goes left to right; a match
  is dropped and the scan resumes after it, a character where no match starts is
  kept.
\<close>

function sub_tokens :: "string \<Rightarrow> string" where
  "sub_tokens s =
     (if s = [] then []
      else (case match_token s of
              Some rest \<Rightarrow> sub_tokens rest
            | None \<Rightarrow> hd s # sub_tokens (tl s)))"
  by pat_completeness auto
termination
proof (relation "measure length")
  show "wf (measure length)" by simp
next
  fix s :: string
  assume "s \<noteq> []"
  then show "(tl s, s) \<in> measure length" by simp
next
  fix s rest :: string
  assume "s \<noteq> []" and "match_token s = Some rest"
  then obtain r where "s = CHR ''{'' # r" and "rest = tl (dropWhile (\<lambda>x. x \<noteq> CHR ''}'') r)"
    by (auto simp: match_token_def Let_def split: list.splits if_splits)
  moreover have "length (dropWhile (\<lambda>x. x \<noteq> CHR ''}'') r) \<le> length r"
    by (rule length_dropWhile_le)
  ultimately show "(rest, s) \<in> measure length" by simp
qed

declare sub_tokens.simps [simp del]

definition clear_paragraph :: "para \<Rightarrow> para" where
  "clear_paragraph paragraph =
     (if py_in ''{'' (para_text paragraph)
      then set_para_text (sub_tokens (para_text paragraph))
      else paragraph)"

fun clear_tables_placeholders_recursive_optimized :: "tbl \<Rightarrow> tbl"
  and clear_cell :: "tcell \<Rightarrow> tcell" where
  "clear_tables_placeholders_recursive_optimized (Tbl n rows) =
     Tbl n (map (map clear_cell) rows)"
| "clear_cell (TCell ps ts) =
     TCell (map clear_paragraph ps) (map clear_tables_placeholders_recursive_optimized ts)"

definition clear_all_remaining_placeholders_optimized :: "document \<Rightarrow> document" where
  "clear_all_remaining_placeholders_optimized doc =
     \<lparr>doc_paragraphs = map clear_paragraph (doc_paragraphs doc),
      doc_tables = map clear_tables_placeholders_recursive_optimized (doc_tables doc)\<rparr>"




section \<open>Image lookup, as described\<close>


section \<open>A platform for the examples\<close>



section \<open>Populating the multi-entity tables\<close>

text \<open>
  The records of the linked files hold text or numbers, never \<open>NaN\<close> (an empty cell
  is stored as the empty string). \<^verbatim>\<open>row_data.get(key, '')\<close>:
\<close>

definition row_get :: "record_row \<Rightarrow> string \<Rightarrow> pyval" where
  "row_get row_data key = dict_get row_data key (PStr '''')"

text \<open>
  The recurring test \<^verbatim>\<open>x_o and str(x_o).strip().lower() not in ['', 'nan']\<close> and
  the text it selects, \<^verbatim>\<open>f"{x}<sep>{x_o}"\<close> or \<^verbatim>\<open>str(x)\<close>.
\<close>

definition specified :: "pyval \<Rightarrow> bool" where
  "specified v = (truthy v \<and> py_lower (py_strip (py_str v)) \<notin> set ['''', ''nan''])"

definition with_specify :: "string \<Rightarrow> pyval \<Rightarrow> pyval \<Rightarrow> string" where
  "with_specify sep main other =
     (if specified other then py_str main @ sep @ py_str other else py_str main)"

text \<open>\<^verbatim>\<open>s.strip(chars)\<close>\<close>

definition py_strip_chars :: "string \<Rightarrow> string \<Rightarrow> string" where
  "py_strip_chars chars s =
     rev (dropWhile (\<lambda>c. c \<in> set chars) (rev (dropWhile (\<lambda>c. c \<in> set chars) s)))"

text \<open>
  \<^verbatim>\<open>sep.join(parts)\<close> over values: it raises \<^verbatim>\<open>TypeError\<close> at the first item
  that is not a string.
\<close>

fun type_name :: "pyval \<Rightarrow> string" where
  "type_name NaN = ''float''"
| "type_name (PStr s) = ''str''"
| "type_name (PInt i) = ''int''"

fun first_non_str :: "pyval list \<Rightarrow> nat \<Rightarrow> (nat \<times> pyval) option" where
  "first_non_str [] i = None"
| "first_non_str (PStr s # parts) i = first_non_str parts (i + 1)"
| "first_non_str (v # parts) i = Some (i, v)"

definition str_join :: "string \<Rightarrow> pyval list \<Rightarrow> pyerror + string" where
  "str_join sep parts =
     (case first_non_str parts 0 of
        None \<Rightarrow> Inr (py_join sep (map py_str parts))
      | Some (i, v) \<Rightarrow>
          Inl (TypeError (''sequence item '' @ str_nat i @ '': expected str instance, ''
                          @ type_name v @ '' found'')))"

text \<open>
  The sequence \<^verbatim>\<open>if len(cells) > j: cells[j].text = t\<close> for consecutive positions
  \<open>j\<close>, starting at the given one.
\<close>

fun fill_cells :: "nat \<Rightarrow> string list \<Rightarrow> tcell list \<Rightarrow> tcell list" where
  "fill_cells j [] cells = cells"
| "fill_cells j (t # ts) cells = fill_cells (j + 1) ts (put_cell j t cells)"

text \<open>
  The loop \<^verbatim>\<open>for idx, row_data in enumerate(additional_rows, start=1)\<close> with
  \<^verbatim>\<open>table.add_row()\<close> in its body: one new row per record, in order. In the second
  form the body may raise, which ends the loop.
\<close>

fun add_rows :: "(nat \<Rightarrow> record_row \<Rightarrow> tcell list) \<Rightarrow> nat \<Rightarrow> record_row list \<Rightarrow> tcell list list" where
  "add_rows make_row idx [] = []"
| "add_rows make_row idx (row_data # additional_rows) =
     make_row idx row_data # add_rows make_row (idx + 1) additional_rows"

fun add_rows_raising :: "(nat \<Rightarrow> record_row \<Rightarrow> pyerror + tcell list) \<Rightarrow> nat \<Rightarrow> record_row list
    \<Rightarrow> pyerror + tcell list list" where
  "add_rows_raising make_row idx [] = Inr []"
| "add_rows_raising make_row idx (row_data # additional_rows) =
     (case make_row idx row_data of
        Inl e \<Rightarrow> Inl e
      | Inr cells \<Rightarrow>
          (case add_rows_raising make_row (idx + 1) additional_rows of
             Inl e \<Rightarrow> Inl e
           | Inr rows \<Rightarrow> Inr (cells # rows)))"

subsection \<open>Household members, savings, labour, debts, land\<close>

definition populate_hh_member_table :: "tbl \<Rightarrow> record_row list \<Rightarrow> tbl" where
  "populate_hh_member_table table additional_rows =
     Tbl (tbl_ncols table)
       (remove_data_rows 2 (tbl_rows table)
        @ add_rows (\<lambda>idx row_data.
            fill_cells 0
              [str_nat idx,
               py_strip (py_str (row_get row_data ''hhcomp_hhmmbr_fname'') @ '' ''
                         @ py_str (row_get row_data ''hhcomp_hhmmbr_mname'') @ '' ''
                         @ py_str (row_get row_data ''hhcomp_hhmmbr_lname'')),
               py_str (row_get row_data ''hhcomp_hhmmbr_hhreltn''),
               py_str (row_get row_data ''hhcomp_hhmmbr_hhage''),
               py_str (row_get row_data ''hhcomp_hhmmbr_hhsex''),
               py_str (row_get row_data ''hhcomp_hhmmbr_status''),
               with_specify '' Pls. Specify: '' (row_get row_data ''hhcomp_hhmmbr_relg'')
                 (row_get row_data ''hhcomp_hhmmbr_relg_o''),
               py_str (row_get row_data ''hhcomp_hhmmbr_brtplc''),
               py_str (row_get row_data ''hhcomp_hhmmbr_educ''),
               py_str (row_get row_data ''hhcomp_hhmmbr_ethn'')]
              (new_row (tbl_ncols table))) 1 additional_rows)"

definition populate_savings_table :: "tbl \<Rightarrow> record_row list \<Rightarrow> tbl" where
  "populate_savings_table table additional_rows =
     Tbl (tbl_ncols table)
       (remove_data_rows 1 (tbl_rows table)
        @ add_rows (\<lambda>idx row_data.
            fill_cells 0
              [str_nat idx,
               py_str (row_get row_data ''hhcomp_hhmmbr_ethn''),
               with_specify '' Pls. Specify '' (row_get row_data ''hhcomp_hhmmbr_savings'')
                 (row_get row_data ''hhcomp_hhmmbr_savings_o''),
               py_str (row_get row_data ''hhcomp_hhmmbr_phone''),
               with_specify '' Pls. Specify '' (row_get row_data ''hhcomp_hhmmbr_org'')
                 (row_get row_data ''hhcomp_hhmmbr_org_o''),
               py_str (row_get row_data ''hhcomp_hhmmbr_org_mem''),
               py_str (row_get row_data ''hhcomp_hhmmbr_disability'')]
              (new_row (tbl_ncols table))) 1 additional_rows)"

definition populate_labor_table :: "tbl \<Rightarrow> record_row list \<Rightarrow> tbl" where
  "populate_labor_table table additional_rows =
     Tbl (tbl_ncols table)
       (remove_data_rows 3 (tbl_rows table)
        @ add_rows (\<lambda>idx row_data.
            fill_cells 0
              [str_nat idx,
               py_str (row_get row_data ''hh_labor_stat''),
               with_specify '' Pls. Specify '' (row_get row_data ''hh_labor_pri_src'')
                 (row_get row_data ''hh_labor_pri_src_o''),
               py_str (row_get row_data ''hh_labor_pri_industry''),
               py_str (row_get row_data ''hh_labor_pri_plc_work''),
               py_str (row_get row_data ''hh_labor_pri_inc''),
               py_str (row_get row_data ''hh_labor_occ_other''),
               py_str (row_get row_data ''hh_labor_other_industry''),
               py_str (row_get row_data ''hh_labor_occ_other_plc_wrk''),
               py_str (row_get row_data ''hh_labor_occ_other_inc''),
               py_str (row_get row_data ''hh_calc_total_inc''),
               py_str (row_get row_data ''hh_wrk_hrs'')]
              (new_row (tbl_ncols table))) 1 additional_rows)"

definition populate_debt_table :: "tbl \<Rightarrow> record_row list \<Rightarrow> tbl" where
  "populate_debt_table table additional_rows =
     Tbl (tbl_ncols table)
       (remove_data_rows 1 (tbl_rows table)
        @ add_rows (\<lambda>idx row_data.
            fill_cells 0
              [with_specify '' Pls. Specify '' (row_get row_data ''debt_src_name'')
                 (row_get row_data ''debt_src_name_o''),
               py_str (row_get row_data ''debt_contract''),
               py_str (row_get row_data ''debt_contract_y''),
               py_str (row_get row_data ''debt_amt''),
               with_specify '' Pls. Specify '' (row_get row_data ''loan_used'')
                 (row_get row_data ''loan_used_o''),
               py_str (row_get row_data ''pymt_terms'') @ py_str (row_get row_data ''pymt_terms_int'')
                 @ py_str (row_get row_data ''pymt_terms_amt'') @ '', ''
                 @ py_str (row_get row_data ''pymt_terms_long''),
               py_str (row_get row_data ''debt_balance''),
               py_str (row_get row_data ''debt_fam_proc''),
               py_str (row_get row_data ''debt_fam_payment'')]
              (new_row (tbl_ncols table))) 1 additional_rows)"

definition populate_land_assets_table :: "tbl \<Rightarrow> record_row list \<Rightarrow> tbl" where
  "populate_land_assets_table table additional_rows =
     Tbl (tbl_ncols table)
       (remove_data_rows 2 (tbl_rows table)
        @ add_rows (\<lambda>idx row_data.
            fill_cells 0
              [str_nat idx,
               py_str (row_get row_data ''asset_land_area''),
               py_str (row_get row_data ''asset_land_area_aff''),
               py_str (row_get row_data ''asset_land_ext_impact''),
               py_str (row_get row_data ''asset_land_type''),
               with_specify '', Please Specify '' (row_get row_data ''asset_land_use'')
                 (row_get row_data ''asset_land_use_o''),
               with_specify '', Please Specify '' (row_get row_data ''asset_land_tenure_owner'')
                 (row_get row_data ''asset_land_tenure_owner_o''),
               with_specify '', Please Specify '' (row_get row_data ''asset_land_proof_owner'')
                 (row_get row_data ''asset_land_proof_owner_o''),
               py_str (row_get row_data ''asset_land_yrs_used''),
               py_str (row_get row_data ''asset_land_price_prch''),
               with_specify '', Please Specify '' (row_get row_data ''asset_land_pymnt_trms'')
                 (row_get row_data ''asset_land_pymnt_trms_o''),
               py_str (row_get row_data ''asset_land_pymnt_amt'')]
              (new_row (tbl_ncols table))) 1 additional_rows)"

subsection \<open>Structures\<close>

text \<open>
  The text of the type cell: the raw type value, then up to two more parts, the empty
  ones dropped, joined by a comma. The type value is not passed through \<^verbatim>\<open>str\<close>,
  so the join raises when it is a number other than zero.
\<close>

definition structure_type_text :: "record_row \<Rightarrow> pyerror + string" where
  "structure_type_text row_data =
     (let asset_struct_type = row_get row_data ''asset_struct_type'';
          asset_struct_type_oth = row_get row_data ''asset_struct_type_oth'';
          asset_struct_type_oth_o = row_get row_data ''asset_struct_type_oth_o'';
          type_parts = [asset_struct_type]
            @ (if specified asset_struct_type_oth
               then [PStr (''Please Specify '' @ py_str asset_struct_type_oth)] else [])
            @ (if specified asset_struct_type_oth_o
               then [PStr (py_str asset_struct_type_oth)] else [])
      in str_join '', '' (filter truthy type_parts))"

definition structure_assets_row :: "nat \<Rightarrow> nat \<Rightarrow> record_row \<Rightarrow> pyerror + tcell list" where
  "structure_assets_row n idx row_data =
     (let cells = fill_cells 0
            [str_nat idx,
             py_str (row_get row_data ''asset_struct_area''),
             py_str (row_get row_data ''asset_struct_area_aff''),
             py_str (row_get row_data ''asset_struct_ext_impact'')]
            (new_row n)
      in if length cells > 4
         then (case structure_type_text row_data of
                 Inl e \<Rightarrow> Inl e
               | Inr type_text \<Rightarrow>
                   Inr (fill_cells 4
                     [type_text,
                      with_specify '', Please Specify '' (row_get row_data ''asset_struct_use'')
                        (row_get row_data ''asset_struct_use_o''),
                      with_specify '', Please Specify '' (row_get row_data ''asset_struct_tenure_owner'')
                        (row_get row_data ''asset_struct_tenure_owner_o''),
                      with_specify '', Please Specify '' (row_get row_data ''asset_struct_proof_owner'')
                        (row_get row_data ''asset_struct_proof_owner_o''),
                      py_str (row_get row_data ''asset_struct_yrs_used''),
                      py_str (row_get row_data ''asset_struct_price_prch''),
                      with_specify '', Please Specify '' (row_get row_data ''asset_struct_pymnt_trms'')
                        (row_get row_data ''asset_struct_pymnt_trms_o''),
                      py_str (row_get row_data ''asset_struct_pymnt_amt''),
                      py_str (row_get row_data ''asset_struct_mrkt_val'')]
                     cells))
         else Inr cells)"

definition populate_structure_assets_table :: "tbl \<Rightarrow> record_row list \<Rightarrow> pyerror + tbl" where
  "populate_structure_assets_table table additional_rows =
     (case add_rows_raising (structure_assets_row (tbl_ncols table)) 1 additional_rows of
        Inl e \<Rightarrow> Inl e
      | Inr rows \<Rightarrow> Inr (Tbl (tbl_ncols table) (remove_data_rows 2 (tbl_rows table) @ rows)))"

subsection \<open>Affected structures and their pictures\<close>

definition pix_keys :: "string list" where
  "pix_keys = [''Pix1'', ''Pix2'', ''Pix3'', ''Pix4'', ''Pix5'', ''Pix6'', ''Pix7'', ''Pix8'',
               ''Pix9'', ''Pix10'']"

text \<open>The \<^verbatim>\<open>for ... else\<close> over the candidate names of one picture value.\<close>

fun find_image :: "world \<Rightarrow> string \<Rightarrow> string \<Rightarrow> string list \<Rightarrow> string" where
  "find_image w folder image_filename [] = ''[Image not found: '' @ image_filename @ '']''"
| "find_image w folder image_filename (ext # exts) =
     (let image_path = os_join w folder (test_filename w image_filename ext) in
      if os_exists w image_path then image_path
      else find_image w folder image_filename exts)"

definition pix_present :: "pyval \<Rightarrow> bool" where
  "pix_present v = (truthy v \<and> py_strip (py_str v) \<noteq> [] \<and> py_lower (py_str v) \<noteq> ''nan'')"

definition image_runs :: "world \<Rightarrow> string \<Rightarrow> run list" where
  "image_runs w valid_image =
     (if py_startswith valid_image ''[Image not found:'' then [RText valid_image]
      else picture_runs w valid_image ''[Error loading: '')"

text \<open>
  The layout loop, two pictures to a line: the first line goes into the paragraph
  the cell has, every further line adds an empty paragraph and then its own.
\<close>

fun image_lines :: "world \<Rightarrow> bool \<Rightarrow> string list \<Rightarrow> para list" where
  "image_lines w first [] = []"
| "image_lines w first [left_image] =
     (if first then [] else [[]]) @ [image_runs w left_image @ [RText ''    '']]"
| "image_lines w first (left_image # right_image # valid_images) =
     (if first then [] else [[]])
     @ [image_runs w left_image @ [RText ''    ''] @ image_runs w right_image]
     @ image_lines w False valid_images"

definition insert_images_in_cell :: "world \<Rightarrow> converter \<Rightarrow> record_row \<Rightarrow> tcell" where
  "insert_images_in_cell w self row_data =
     (if \<not> folder_configured self
      then set_cell_text
             (py_join '', ''
                (map (\<lambda>key. py_str (row_get row_data key))
                   (filter (\<lambda>key. pix_present (row_get row_data key)) pix_keys)))
      else (let valid_images =
                  map (\<lambda>key. find_image w (the (image_folder_path self))
                                 (py_strip (py_str (row_get row_data key)))
                                 ('''' # image_extensions))
                    (filter (\<lambda>key. pix_present (row_get row_data key)) pix_keys)
            in if valid_images = [] then set_cell_text ''No images''
               else TCell (image_lines w True valid_images) []))"

definition affected_structure_row :: "world \<Rightarrow> converter \<Rightarrow> nat \<Rightarrow> record_row \<Rightarrow> tcell list" where
  "affected_structure_row w self n row_data =
     (let cells = fill_cells 0
            [with_specify '', Please Specify '' (row_get row_data ''affctd_struct_type_zz'')
               (row_get row_data ''affctd_struct_type_zz_o''),
             py_str (row_get row_data ''affctd_struct_mtrl_type''),
             py_str (row_get row_data ''affctd_struct_dimension''),
             py_join '', ''
               (filter (\<lambda>part. part \<noteq> [] \<and> py_lower (py_strip part) \<notin> set ['''', ''nan''])
                  [py_str (row_get row_data ''affctd_struct_unit''),
                   py_str (row_get row_data ''affctd_struct_ht'')]),
             py_str (row_get row_data ''affctd_struct_estvalue''),
             py_str (row_get row_data ''affctd_struct_totalcost'')]
            (new_row n)
      in if length cells > 6 then cells[6 := insert_images_in_cell w self row_data] else cells)"

definition populate_affected_structure_table :: "world \<Rightarrow> converter \<Rightarrow> tbl \<Rightarrow> record_row list \<Rightarrow> tbl" where
  "populate_affected_structure_table w self table additional_rows =
     Tbl (tbl_ncols table)
       (remove_data_rows 2 (tbl_rows table)
        @ add_rows (\<lambda>idx row_data. affected_structure_row w self (tbl_ncols table) row_data)
            1 additional_rows)"

subsection \<open>Trees, crops, income losses, others\<close>

definition populate_trees_table :: "tbl \<Rightarrow> record_row list \<Rightarrow> tbl" where
  "populate_trees_table table additional_rows =
     Tbl (tbl_ncols table)
       (remove_data_rows 1 (tbl_rows table)
        @ add_rows (\<lambda>idx row_data.
            fill_cells 0
              [py_str (row_get row_data ''tree_type''),
               py_strip_chars '', ''
                 (py_str (row_get row_data ''tree_age'') @ '', ''
                  @ py_str (row_get row_data ''tree_height'')),
               py_str (row_get row_data ''tree_qty''),
               py_str (row_get row_data ''tree_price''),
               py_str (row_get row_data ''tree_totalcost'')]
              (new_row (tbl_ncols table))) 0 additional_rows)"

text \<open>
  The crops table finds its five values by key: every key of the record in turn,
  the first test of the chain that holds assigns, a later key overwrites.
\<close>

definition crop_assign :: "string \<Rightarrow> pyval \<Rightarrow> string list \<Rightarrow> string list" where
  "crop_assign key val vals =
     (let key_lower = py_lower key in
      if py_in ''crop'' key_lower \<and> py_in ''type'' key_lower \<and> truthy val
      then vals[0 := py_str val]
      else if py_in ''crop'' key_lower \<and> py_in ''age'' key_lower \<and> truthy val
      then vals[1 := py_str val]
      else if py_in ''crop'' key_lower \<and> py_in ''area'' key_lower \<and> truthy val
      then vals[2 := py_str val]
      else if py_in ''crop'' key_lower \<and> py_in ''price'' key_lower \<and> truthy val
      then vals[3 := py_str val]
      else if py_in ''crop'' key_lower
              \<and> (py_in ''total'' key_lower \<or> py_in ''cost'' key_lower) \<and> truthy val
      then vals[4 := py_str val]
      else vals)"

fun crop_values :: "(string \<times> pyval) list \<Rightarrow> string list \<Rightarrow> string list" where
  "crop_values [] vals = vals"
| "crop_values ((key, val) # items) vals = crop_values items (crop_assign key val vals)"

definition populate_crops_table :: "tbl \<Rightarrow> record_row list \<Rightarrow> tbl" where
  "populate_crops_table table additional_rows =
     Tbl (tbl_ncols table)
       (remove_data_rows 1 (tbl_rows table)
        @ add_rows (\<lambda>idx row_data.
            fill_cells 0 (crop_values row_data ['''', '''', '''', '''', ''''])
              (new_row (tbl_ncols table))) 0 additional_rows)"

text \<open>
  The income-loss table and the others table run the same chain, on the word
  \<open>income\<close> and on the word \<open>others\<close>.
\<close>

definition loss_assign :: "string \<Rightarrow> string \<Rightarrow> pyval \<Rightarrow> string list \<Rightarrow> string list" where
  "loss_assign word key val vals =
     (let key_lower = py_lower key in
      if py_in word key_lower \<and> py_in ''type'' key_lower \<and> truthy val
      then vals[0 := py_str val]
      else if py_in word key_lower
              \<and> (py_in ''qty'' key_lower \<or> py_in ''quantity'' key_lower) \<and> truthy val
      then vals[1 := py_str val]
      else if py_in word key_lower \<and> py_in ''unit'' key_lower
              \<and> \<not> py_in ''price'' key_lower \<and> truthy val
      then vals[2 := py_str val]
      else if py_in word key_lower \<and> py_in ''price'' key_lower \<and> truthy val
      then vals[3 := py_str val]
      else if py_in word key_lower
              \<and> (py_in ''total'' key_lower \<or> py_in ''cost'' key_lower) \<and> truthy val
      then vals[4 := py_str val]
      else vals)"

fun loss_values :: "string \<Rightarrow> (string \<times> pyval) list \<Rightarrow> string list \<Rightarrow> string list" where
  "loss_values word [] vals = vals"
| "loss_values word ((key, val) # items) vals = loss_values word items (loss_assign word key val vals)"

definition populate_income_loss_table :: "tbl \<Rightarrow> record_row list \<Rightarrow> tbl" where
  "populate_income_loss_table table additional_rows =
     Tbl (tbl_ncols table)
       (remove_data_rows 1 (tbl_rows table)
        @ add_rows (\<lambda>idx row_data.
            fill_cells 0 (loss_values ''income'' row_data ['''', '''', '''', '''', ''''])
              (new_row (tbl_ncols table))) 0 additional_rows)"

definition populate_others_table :: "tbl \<Rightarrow> record_row list \<Rightarrow> tbl" where
  "populate_others_table table additional_rows =
     Tbl (tbl_ncols table)
       (remove_data_rows 1 (tbl_rows table)
        @ add_rows (\<lambda>idx row_data.
            fill_cells 0 (loss_values ''others'' row_data ['''', '''', '''', '''', ''''])
              (new_row (tbl_ncols table))) 0 additional_rows)"

subsection \<open>Sorting the records and recognising the tables\<close>

datatype category =
  HHMember | Labor | Debt | Land | Struct | AffectedStruct | Tree | Crop | IncomeLoss | Others

text \<open>\<^verbatim>\<open>key.startswith((p1, p2, ...))\<close>\<close>

definition starts_any :: "string list \<Rightarrow> string \<Rightarrow> bool" where
  "starts_any prefixes key = list_ex (py_startswith key) prefixes"

text \<open>The chain that sorts one record by its keys; a record that fits nowhere is dropped.\<close>

definition categorize :: "record_row \<Rightarrow> category option" where
  "categorize row =
     (let row_keys = map fst row in
      if list_ex (\<lambda>key. py_in ''crop'' (py_lower key)) row_keys then Some Crop
      else if list_ex (\<lambda>key. py_in ''income_loss'' (py_lower key)
                              \<or> py_in ''incomeloss'' (py_lower key)) row_keys then Some IncomeLoss
      else if list_ex (\<lambda>key. py_in ''others'' (py_lower key)) row_keys then Some Others
      else if list_ex (\<lambda>key. py_startswith key ''hhcomp_hhmmbr_'') row_keys then Some HHMember
      else if list_ex (starts_any [''hh_labor_'', ''hh_wrk_'', ''hh_calc_'', ''hh_total_'']) row_keys
      then Some Labor
      else if list_ex (starts_any [''debt_'', ''loan_'', ''pymt_'']) row_keys then Some Debt
      else if list_ex (\<lambda>key. py_startswith key ''asset_land_'') row_keys then Some Land
      else if list_ex (\<lambda>key. py_startswith key ''asset_struct_'') row_keys then Some Struct
      else if list_ex (\<lambda>key. py_startswith key ''affctd_struct_'') row_keys then Some AffectedStruct
      else if list_ex (\<lambda>key. py_startswith key ''tree_'') row_keys then Some Tree
      else None)"

definition categorized_data :: "record_row list \<Rightarrow> category \<Rightarrow> record_row list" where
  "categorized_data additional_rows c = filter (\<lambda>row. categorize row = Some c) additional_rows"

text \<open>
  The values added up for \<^verbatim>\<open>hh_calc_total_sum\<close>: those of the labour records that
  pass the test, in order. The total starts as the integer zero, so with nothing to
  add the text is \<open>0\<close>; otherwise it is the platform's rendering of the total.
\<close>

definition hh_calc_values :: "record_row list \<Rightarrow> pyval list" where
  "hh_calc_values additional_rows =
     filter (\<lambda>hh_calc_value. truthy hh_calc_value \<and> py_strip (py_str hh_calc_value) \<noteq> []
                               \<and> py_lower (py_str hh_calc_value) \<noteq> ''nan'')
       (map (\<lambda>row. dict_get row ''hh_calc_total_inc'' (PInt 0))
          (categorized_data additional_rows Labor))"

definition hh_calc_sum_text :: "world \<Rightarrow> record_row list \<Rightarrow> string" where
  "hh_calc_sum_text w additional_rows =
     (if hh_calc_values additional_rows = [] then ''0''
      else float_total_text w (hh_calc_values additional_rows))"

datatype table_kind =
  HHMemberTable | SavingsTable | LaborTable | DebtTable | LandTable | StructureTable
  | AffectedStructureTable | TreesTable | CropsTable | IncomeLossTable | OthersTable

text \<open>The chain that recognises a table by the text of its first two rows.\<close>

definition table_kind_of :: "string \<Rightarrow> table_kind option" where
  "table_kind_of rows_text =
     (if py_in ''Name of HH Member'' rows_text then Some HHMemberTable
      else if py_in ''Ownership of at least one savings account'' rows_text
      then Some SavingsTable
      else if py_in ''Labor Force Status'' rows_text then Some LaborTable
      else if py_in ''With formal loan contract? (Y/N)'' rows_text then Some DebtTable
      else if py_in ''13.1 Affected Assets: Land'' rows_text
              \<or> py_in ''10.0 Affected Assets: Land'' rows_text then Some LandTable
      else if py_in ''13.2 Affected Assets: Structure'' rows_text
              \<or> py_in ''10.2 Affected Assets: Structure'' rows_text then Some StructureTable
      else if py_in ''13.3 Affected Structure'' rows_text
              \<or> py_in ''10.3 Affected Structure'' rows_text then Some AffectedStructureTable
      else if py_in ''13.4 Trees'' rows_text
              \<or> py_in ''10.4 Trees'' rows_text then Some TreesTable
      else if py_in ''13.5 Crops'' rows_text
              \<or> py_in ''10.5 Crops'' rows_text
              \<or> py_in ''crops_grp_converted'' (py_lower rows_text) then Some CropsTable
      else if py_in ''13.6 Income Loss'' rows_text
              \<or> py_in ''10.6 Income Loss'' rows_text
              \<or> py_in ''income_loss_grp_converted'' (py_lower rows_text)
      then Some IncomeLossTable
      else if py_in ''13.7 Others'' rows_text
              \<or> py_in ''10.7 Others'' rows_text
              \<or> py_in ''others_grp_converted'' (py_lower rows_text) then Some OthersTable
      else None)"

text \<open>The population a kind of table gets, and the records it is given.\<close>

fun populate_kind :: "world \<Rightarrow> converter \<Rightarrow> table_kind \<Rightarrow> tbl \<Rightarrow> record_row list \<Rightarrow> pyerror + tbl" where
  "populate_kind w self HHMemberTable table rows =
     Inr (populate_hh_member_table table (categorized_data rows HHMember))"
| "populate_kind w self SavingsTable table rows =
     Inr (populate_savings_table table (categorized_data rows HHMember))"
| "populate_kind w self LaborTable table rows =
     Inr (populate_labor_table table (categorized_data rows Labor))"
| "populate_kind w self DebtTable table rows =
     Inr (populate_debt_table table (categorized_data rows Debt))"
| "populate_kind w self LandTable table rows =
     Inr (populate_land_assets_table table (categorized_data rows Land))"
| "populate_kind w self StructureTable table rows =
     populate_structure_assets_table table (categorized_data rows Struct)"
| "populate_kind w self AffectedStructureTable table rows =
     Inr (populate_affected_structure_table w self table (categorized_data rows AffectedStruct))"
| "populate_kind w self TreesTable table rows =
     Inr (populate_trees_table table (categorized_data rows Tree))"
| "populate_kind w self CropsTable table rows =
     Inr (populate_crops_table table (categorized_data rows Crop))"
| "populate_kind w self IncomeLossTable table rows =
     Inr (populate_income_loss_table table (categorized_data rows IncomeLoss))"
| "populate_kind w self OthersTable table rows =
     Inr (populate_others_table table (categorized_data rows Others))"

text \<open>The loop over the tables of the document body; a raise ends it.\<close>

fun populate_tables :: "world \<Rightarrow> converter \<Rightarrow> record_row list \<Rightarrow> tbl list \<Rightarrow> pyerror + tbl list" where
  "populate_tables w self rows [] = Inr []"
| "populate_tables w self rows (table # tables) =
     (case (case table_kind_of (first_two_rows_text table) of
              None \<Rightarrow> Inr table
            | Some kind \<Rightarrow> populate_kind w self kind table rows) of
        Inl e \<Rightarrow> Inl e
      | Inr table' \<Rightarrow>
          (case populate_tables w self rows tables of
             Inl e \<Rightarrow> Inl e
           | Inr tables' \<Rightarrow> Inr (table' # tables')))"

subsection \<open>The total\<close>

definition replace_sum_in_paragraph :: "string \<Rightarrow> string \<Rightarrow> para \<Rightarrow> para" where
  "replace_sum_in_paragraph placeholder_text sum_text paragraph =
     (if py_in placeholder_text (para_text paragraph)
      then set_para_text (py_replace placeholder_text sum_text (para_text paragraph))
      else paragraph)"

fun replace_sum_in_nested_tables :: "string \<Rightarrow> string \<Rightarrow> tbl \<Rightarrow> tbl"
  and replace_sum_in_cell :: "string \<Rightarrow> string \<Rightarrow> tcell \<Rightarrow> tcell" where
  "replace_sum_in_nested_tables placeholder_text sum_text (Tbl n rows) =
     Tbl n (map (map (replace_sum_in_cell placeholder_text sum_text)) rows)"
| "replace_sum_in_cell placeholder_text sum_text (TCell ps ts) =
     TCell (map (replace_sum_in_paragraph placeholder_text sum_text) ps)
           (map (replace_sum_in_nested_tables placeholder_text sum_text) ts)"

definition replace_sum_placeholder :: "document \<Rightarrow> string \<Rightarrow> string \<Rightarrow> document" where
  "replace_sum_placeholder doc placeholder_name sum_text =
     (let placeholder_text = ''{'' @ placeholder_name @ ''}'' in
      \<lparr>doc_paragraphs = map (replace_sum_in_paragraph placeholder_text sum_text) (doc_paragraphs doc),
       doc_tables = map (replace_sum_in_nested_tables placeholder_text sum_text) (doc_tables doc)\<rparr>)"

definition populate_dynamic_tables_optimized :: "world \<Rightarrow> converter \<Rightarrow> document \<Rightarrow> record_row list
    \<Rightarrow> pyerror + document" where
  "populate_dynamic_tables_optimized w self doc additional_rows =
     (case populate_tables w self additional_rows (doc_tables doc) of
        Inl e \<Rightarrow> Inl e
      | Inr tables \<Rightarrow>
          Inr (replace_sum_placeholder (doc\<lparr>doc_tables := tables\<rparr>) ''hh_calc_total_sum''
                 (hh_calc_sum_text w additional_rows)))"

section \<open>The placeholders of the template\<close>

text \<open>
  \<^verbatim>\<open>re.findall(r'\{([^}]+)\}', text)\<close>: the names of the tokens found by the same
  left-to-right scan as the sweep makes.
\<close>

function findall_tokens :: "string \<Rightarrow> string list" where
  "findall_tokens s =
     (if s = [] then []
      else (case match_token s of
              Some rest \<Rightarrow> takeWhile (\<lambda>x. x \<noteq> CHR ''}'') (tl s) # findall_tokens rest
            | None \<Rightarrow> findall_tokens (tl s)))"
  by pat_completeness auto
termination
proof (relation "measure length")
  show "wf (measure length)" by simp
next
  fix s :: string
  assume "s \<noteq> []"
  then show "(tl s, s) \<in> measure length" by simp
next
  fix s rest :: string
  assume "s \<noteq> []" and "match_token s = Some rest"
  then obtain r where "s = CHR ''{'' # r" and "rest = tl (dropWhile (\<lambda>x. x \<noteq> CHR ''}'') r)"
    by (auto simp: match_token_def Let_def split: list.splits if_splits)
  moreover have "length (dropWhile (\<lambda>x. x \<noteq> CHR ''}'') r) \<le> length r"
    by (rule length_dropWhile_le)
  ultimately show "(rest, s) \<in> measure length" by simp
qed

declare findall_tokens.simps [simp del]

fun search_tables_for_placeholders :: "tbl \<Rightarrow> string list"
  and search_cell_for_placeholders :: "tcell \<Rightarrow> string list" where
  "search_tables_for_placeholders (Tbl n rows) =
     concat (map (\<lambda>row. concat (map search_cell_for_placeholders row)) rows)"
| "search_cell_for_placeholders (TCell ps ts) =
     findall_tokens (py_join [NL] (map para_text ps))
     @ concat (map search_tables_for_placeholders ts)"

text \<open>
  \<^verbatim>\<open>find_placeholders()\<close> as the conversion calls it, without a document: the
  entry of \<^verbatim>\<open>lru_cache\<close> if there is one; else the cached list if it is not empty;
  else the template is opened (which may raise) and scanned, and the names found are
  listed in the order of the set. A result is remembered by \<^verbatim>\<open>lru_cache\<close>.
\<close>

definition list_truthy :: "'a list option \<Rightarrow> bool" where
  "list_truthy c = (case c of None \<Rightarrow> False | Some xs \<Rightarrow> xs \<noteq> [])"

definition find_placeholders :: "world \<Rightarrow> converter \<Rightarrow> pyerror + string list \<times> converter" where
  "find_placeholders w self =
     (case find_placeholders_memo self of
        Some placeholders \<Rightarrow> Inr (placeholders, self)
      | None \<Rightarrow>
          if list_truthy (placeholders_cache self)
          then Inr (the (placeholders_cache self),
                    self\<lparr>find_placeholders_memo := placeholders_cache self\<rparr>)
          else (case load_template w of
                  Inl e \<Rightarrow> Inl e
                | Inr doc \<Rightarrow>
                    (let placeholders =
                           set_order w
                             (concat (map (\<lambda>paragraph. findall_tokens (para_text paragraph))
                                        (doc_paragraphs doc))
                              @ concat (map search_tables_for_placeholders (doc_tables doc)))
                     in Inr (placeholders, self\<lparr>find_placeholders_memo := Some placeholders\<rparr>))))"

section \<open>One document\<close>

text \<open>
  The loop that builds \<^verbatim>\<open>replacement_data\<close>; \<^verbatim>\<open>row[column_name]\<close> raises
  \<^verbatim>\<open>KeyError\<close> for a column the row does not have.
\<close>

fun replacement_loop :: "(string \<times> nat) list \<Rightarrow> pyval list \<Rightarrow> pyval dict \<Rightarrow> pyerror + pyval dict" where
  "replacement_loop [] row replacement_data = Inr replacement_data"
| "replacement_loop ((placeholder, column_name) # items) row replacement_data =
     (if column_name < length row
      then replacement_loop items row
             (dict_set replacement_data placeholder
                (if notna (row ! column_name) then row ! column_name else PStr ''''))
      else Inl (KeyError (str_nat column_name)))"

definition invalid_chars :: string where
  "invalid_chars = [CHR ''<'', CHR ''>'', CHR '':'', CHR 0x22, CHR ''/'', CHR 0x5C, CHR ''|'',
                    CHR ''?'', CHR ''*'']"

text \<open>\<^verbatim>\<open>for char in invalid_chars: s = s.replace(char, '_')\<close>\<close>

definition clean_name :: "string \<Rightarrow> string" where
  "clean_name s = fold (\<lambda>char s. py_replace [char] ''_'' s) invalid_chars s"

text \<open>\<^verbatim>\<open>f"{n:03d}"\<close>\<close>

definition pad3 :: "nat \<Rightarrow> string" where
  "pad3 n = replicate (3 - length (str_nat n)) (CHR ''0'') @ str_nat n"

definition document_filename :: "pyval dict \<Rightarrow> nat \<Rightarrow> string" where
  "document_filename replacement_data idx =
     (let resp_lname = dict_get replacement_data ''resp_lname'' (PStr '''');
          resp_brgy = dict_get replacement_data ''pckg_brgy'' (PStr '''')
      in if truthy resp_brgy \<and> py_strip (py_str resp_brgy) \<noteq> []
            \<and> truthy resp_lname \<and> py_strip (py_str resp_lname) \<noteq> []
         then take 15 (clean_name (py_strip (py_str resp_brgy))) @ ''_''
              @ take 15 (clean_name (py_strip (py_str resp_lname))) @ ''_''
              @ pad3 (idx + 1) @ ''.docx''
         else if truthy resp_lname \<and> py_strip (py_str resp_lname) \<noteq> []
         then take 20 (clean_name (py_strip (py_str resp_lname))) @ ''_''
              @ pad3 (idx + 1) @ ''.docx''
         else ''document_'' @ pad3 (idx + 1) @ ''.docx'')"

text \<open>
  \<^verbatim>\<open>process_single_document\<close>. Its body is one \<^verbatim>\<open>try\<close>: the result
  \<^verbatim>\<open>(output_path, None)\<close> is \<open>Inr\<close> of the path together with the document saved
  there, and \<^verbatim>\<open>(None, str(e))\<close> is \<open>Inl e\<close>. The arguments are the position of the
  job, the label of the row, the row, the column mapping, the key column and the
  temporary folder.
\<close>

type_synonym job_args = "nat \<times> nat \<times> pyval list \<times> nat dict \<times> nat \<times> string"

definition process_single_document :: "world \<Rightarrow> converter \<Rightarrow> job_args \<Rightarrow> pyerror + string \<times> document" where
  "process_single_document w self args =
     (case args of (idx, original_row_idx, row, column_mapping, key_column, temp_dir) \<Rightarrow>
      case load_template w of
        Inl e \<Rightarrow> Inl e
      | Inr new_doc \<Rightarrow>
          if \<not> key_column < length row
          then Inl (IndexError ''single positional indexer is out-of-bounds'')
          else (let key_value = (if notna (row ! key_column) then row ! key_column else PStr '''');
                    additional_rows = get_additional_data_for_key_optimized self key_value
                in case replacement_loop column_mapping row [] of
                     Inl e \<Rightarrow> Inl e
                   | Inr replacement_data \<Rightarrow>
                       (case replace_placeholders_optimized w self new_doc replacement_data of
                          (new_doc, replacement_data) \<Rightarrow>
                            (case (if additional_rows \<noteq> []
                                   then populate_dynamic_tables_optimized w self new_doc additional_rows
                                   else Inr new_doc) of
                               Inl e \<Rightarrow> Inl e
                             | Inr new_doc \<Rightarrow>
                                 (let new_doc = clear_all_remaining_placeholders_optimized new_doc;
                                      filename = document_filename replacement_data idx;
                                      output_path = os_join w temp_dir filename
                                  in case save_document w output_path new_doc of
                                       Some e \<Rightarrow> Inl e
                                     | None \<Rightarrow> Inr (output_path, new_doc))))))"

section \<open>The batch\<close>

text \<open>
  What a conversion does to its surroundings, in order: message boxes (title and
  text), lines printed, and changes to the file system. The status line and the
  progress bar are left out, and so are the pictographs at the head of some texts.
\<close>

datatype event =
  ShowWarning string string
| ShowError string string
| ShowInfo string string
| Print string
| MkDir string
| SaveDocument string document
| WriteZip string "(string \<times> string) list"
| Unlink string
| RmDir string

text \<open>
  \<^verbatim>\<open>as_completed\<close> hands the jobs back in the order in which they finish; jobs that
  finish together come in the order of submission.
\<close>

definition as_completed :: "world \<Rightarrow> job_args list \<Rightarrow> job_args list" where
  "as_completed w process_args = sort_key (\<lambda>args. finish_time w (fst args)) process_args"

text \<open>
  The loop over the finished jobs: the events (a saved document or a printed
  error) and \<^verbatim>\<open>generated_files\<close>.
\<close>

fun collect_results :: "world \<Rightarrow> converter \<Rightarrow> job_args list \<Rightarrow> event list \<times> string list" where
  "collect_results w self [] = ([], [])"
| "collect_results w self (args # futures) =
     (case collect_results w self futures of
        (events, generated_files) \<Rightarrow>
          (case process_single_document w self args of
             Inr (result, doc) \<Rightarrow> (SaveDocument result doc # events, result # generated_files)
           | Inl error \<Rightarrow>
               (Print (''Error processing document: '' @ error_text error) # events,
                generated_files)))"

definition enumerate_rows :: "nat dict \<Rightarrow> nat \<Rightarrow> string \<Rightarrow> dataframe \<Rightarrow> job_args list" where
  "enumerate_rows column_mapping key_column temp_dir data_rows =
     map (\<lambda>(idx, row). (idx, 4 + idx, row, column_mapping, key_column, temp_dir))
       (zip [0 ..< length data_rows] data_rows)"

definition outer_except :: "pyerror \<Rightarrow> event list" where
  "outer_except e =
     [Print (''Error occurred: '' @ error_text e),
      ShowError ''Error'' (''An error occurred: '' @ error_text e)]"

text \<open>\<^verbatim>\<open>placeholders = self._placeholders_cache or self.find_placeholders()\<close>\<close>

definition conversion_placeholders :: "world \<Rightarrow> converter \<Rightarrow> pyerror + string list \<times> converter" where
  "conversion_placeholders w self =
     (if list_truthy (placeholders_cache self)
      then Inr (the (placeholders_cache self), self)
      else find_placeholders w self)"

definition conversion_worker :: "world \<Rightarrow> converter \<Rightarrow> event list \<times> converter" where
  "conversion_worker w self =
     (let destination_path = ask_directory w in
      if destination_path = [] then ([], self)
      else (case read_excel w of
              Inl e \<Rightarrow> (outer_except e, self)
            | Inr df \<Rightarrow>
          (case conversion_placeholders w self of
             Inl e \<Rightarrow> (outer_except e, self)
           | Inr (placeholders, self) \<Rightarrow>
          if placeholders = []
          then ([ShowWarning ''Warning'' ''No placeholders found in template''], self)
          else (case find_column_mapping self df placeholders of
                  (column_mapping, self, printed) \<Rightarrow>
          if column_mapping = []
          then (map Print printed
                @ [ShowError ''Error''
                     ''No matching columns found between template and Excel headers in rows 1-3''],
                self)
          else (case marker_column ''KEY'' df of
                  None \<Rightarrow>
                    (map Print printed
                     @ [ShowError ''Error'' ''KEY column not found in row 4 of main Excel file''],
                     self)
                | Some key_column \<Rightarrow>
          (let data_rows = drop 4 df in
           if data_rows = []
           then (map Print printed
                 @ [ShowWarning ''Warning'' ''No data found starting from row 5''], self)
           else (let temp_dir = os_join w destination_path ''temp_documents'';
                     total_rows = length data_rows;
                     process_args = enumerate_rows column_mapping key_column temp_dir data_rows
                 in case collect_results w self (as_completed w process_args) of
                      (job_events, generated_files) \<Rightarrow>
                        (let zip_path = os_join w destination_path ''Generated_Documents.zip''
                         in (map Print printed
                             @ [MkDir temp_dir]
                             @ job_events
                             @ [WriteZip zip_path
                                  (map (\<lambda>file_path. (file_path, basename (os_seps w) file_path))
                                     generated_files)]
                             @ map Unlink generated_files
                             @ [RmDir temp_dir,
                                ShowInfo ''Success''
                                  (''Generated '' @ str_nat total_rows
                                   @ '' documents in ZIP file:'' @ [NL] @ zip_path)],
                             self)))))))))"


section \<open>The batch, as described\<close>

text \<open>A cell of row 3 that carries a marker such as \<^verbatim>\<open>KEY\<close>, trimmed and in any case.\<close>

definition has_marker_cell :: "string \<Rightarrow> dataframe \<Rightarrow> nat \<Rightarrow> bool" where
  "has_marker_cell marker df c =
     (3 < length df \<and> c < length (df ! 3) \<and> notna (df ! 3 ! c)
      \<and> py_upper (py_strip (py_str (df ! 3 ! c))) = marker)"

text \<open>
  What one finished job leaves behind, and the files of the jobs that succeeded.
\<close>

fun job_event :: "pyerror + string \<times> document \<Rightarrow> event" where
  "job_event (Inr (output_path, doc)) = SaveDocument output_path doc"
| "job_event (Inl e) = Print (''Error processing document: '' @ error_text e)"

fun succeeded_files :: "(pyerror + string \<times> document) list \<Rightarrow> string list" where
  "succeeded_files [] = []"
| "succeeded_files (Inr (output_path, doc) # outcomes) = output_path # succeeded_files outcomes"
| "succeeded_files (Inl e # outcomes) = succeeded_files outcomes"

text \<open>Events that leave something on disk.\<close>

fun leaves_output :: "event \<Rightarrow> bool" where
  "leaves_output (MkDir p) = True"
| "leaves_output (SaveDocument p d) = True"
| "leaves_output (WriteZip p files) = True"
| "leaves_output e = False"

section \<open>Table population, as described\<close>

text \<open>
  The number of header rows of each kind of table, and the category of records that
  fills it.
\<close>

fun header_rows :: "table_kind \<Rightarrow> nat" where
  "header_rows HHMemberTable = 2"
| "header_rows SavingsTable = 1"
| "header_rows LaborTable = 3"
| "header_rows DebtTable = 1"
| "header_rows LandTable = 2"
| "header_rows StructureTable = 2"
| "header_rows AffectedStructureTable = 2"
| "header_rows TreesTable = 1"
| "header_rows CropsTable = 1"
| "header_rows IncomeLossTable = 1"
| "header_rows OthersTable = 1"

fun kind_category :: "table_kind \<Rightarrow> category" where
  "kind_category HHMemberTable = HHMember"
| "kind_category SavingsTable = HHMember"
| "kind_category LaborTable = Labor"
| "kind_category DebtTable = Debt"
| "kind_category LandTable = Land"
| "kind_category StructureTable = Struct"
| "kind_category AffectedStructureTable = AffectedStruct"
| "kind_category TreesTable = Tree"
| "kind_category CropsTable = Crop"
| "kind_category IncomeLossTable = IncomeLoss"
| "kind_category OthersTable = Others"

section \<open>Properties\<close>

lemma ranking_text_blank:
  assumes "py_strip (py_str (dict_get data_row ''bus_info_needs'' (PStr ''''))) = []
           \<or> py_lower (py_strip (py_str (dict_get data_row ''bus_info_needs'' (PStr ''''))))
               \<in> set [''nan'', ''na'', '''']"
  shows "dict_get (process_bus_info_needs_ranking data_row) ''bus_info_needs'' (PStr '''') = PStr ''''"
  using assms unfolding process_bus_info_needs_ranking_def Let_def dict_get_def
  by (simp del: set_simps)

lemma ranking_text_no_items:
  assumes "ranked_items data_row = []"
  shows "dict_get (process_bus_info_needs_ranking data_row) ''bus_info_needs'' (PStr '''') = PStr ''''"
  using assms unfolding process_bus_info_needs_ranking_def Let_def dict_get_def
  by (simp del: set_simps)

text \<open>
  C1. On the multiselect value \<open>A, B, Others, specify\<close> with companion text \<open>X\<close> the
  ranking splits the option \<open>Others, specify\<close> at its own comma and turns each half
  into the merged entry: the item list has four entries, the last two equal, and the
  rank string counts to four.
\<close>

theorem ranking_others_specify_duplicated:
  "ranked_items [(''bus_info_needs'', PStr ''A, B, Others, specify''),
                 (''bus_info_needs_o'', PStr ''X'')]
     = [''A'', ''B'', ''Others, specify: X'', ''Others, specify: X'']
   \<and> dict_get (process_bus_info_needs_ranking
                 [(''bus_info_needs'', PStr ''A, B, Others, specify''),
                  (''bus_info_needs_o'', PStr ''X'')]) ''bus_info_needs'' NaN
     = PStr (py_join [NL] [''A'', ''B'', ''Others, specify: X'', ''Others, specify: X''])
   \<and> dict_get (process_bus_info_needs_ranking
                 [(''bus_info_needs'', PStr ''A, B, Others, specify''),
                  (''bus_info_needs_o'', PStr ''X'')]) ''bus_info_needs_rank'' NaN
     = PStr [CHR ''1'', NL, CHR ''2'', NL, CHR ''3'', NL, CHR ''4'']"
  by code_simp

text \<open>
  C10. When the ranked-item list of a row is empty (the multiselect field is missing,
  or blank, \<open>NA\<close> or \<open>nan\<close> after trimming and lower-casing, or every item is dropped)
  populating the ranked-needs table returns the table as it was: no row is removed
  and none is added.
\<close>

theorem populate_bus_info_needs_table_empty_frame:
  assumes "\<not> dict_has data_row ''bus_info_needs''
           \<or> py_lower (py_strip (py_str (dict_get data_row ''bus_info_needs'' (PStr ''''))))
               \<in> {'''', ''na'', ''nan''}
           \<or> ranked_items data_row = []"
  shows "populate_bus_info_needs_table table data_row = table"
proof -
  let ?v = "py_strip (py_str (dict_get data_row ''bus_info_needs'' (PStr '''')))"
  have "dict_get (process_bus_info_needs_ranking data_row) ''bus_info_needs'' (PStr '''') = PStr ''''"
  proof -
    consider (missing) "\<not> dict_has data_row ''bus_info_needs''"
      | (blank) "py_lower ?v \<in> {'''', ''na'', ''nan''}"
      | (none) "ranked_items data_row = []"
      using assms by blast
    then show ?thesis
    proof cases
      case missing
      then have "?v = []"
        by (simp add: dict_has_def dict_get_def py_strip_def)
      then show ?thesis by (intro ranking_text_blank) simp
    next
      case blank
      then show ?thesis by (intro ranking_text_blank) auto
    next
      case none
      then show ?thesis by (rule ranking_text_no_items)
    qed
  qed
  then show ?thesis
    by (simp add: populate_bus_info_needs_table_def)
qed

theorem populate_bus_info_needs_table_empty_frame_witness:
  "populate_bus_info_needs_table
     (Tbl 3 [[set_cell_text ''Information Needs''], [set_cell_text ''Rank''], [set_cell_text ''stale'']])
     [(''bus_info_needs'', PStr '' NA '')]
   = Tbl 3 [[set_cell_text ''Information Needs''], [set_cell_text ''Rank''], [set_cell_text ''stale'']]"
proof -
  have "py_lower (py_strip (py_str (dict_get [(''bus_info_needs'', PStr '' NA '')] ''bus_info_needs'' (PStr ''''))))
          \<in> {'''', ''na'', ''nan''}"
    by code_simp
  then show ?thesis
    using populate_bus_info_needs_table_empty_frame
            [of "[(''bus_info_needs'', PStr '' NA '')]"] by blast
qed


subsection \<open>Dictionaries\<close>

lemma map_of_dict_set: "map_of (dict_set d k v) = (map_of d)(k \<mapsto> v)"
  by (induction d k v rule: dict_set.induct) auto

lemma dict_get_dict_set:
  "dict_get (dict_set d k v) k' dflt = (if k' = k then v else dict_get d k' dflt)"
  by (simp add: dict_get_def map_of_dict_set)

subsection \<open>The auxiliary index\<close>

lemma group_rows_get:
  "dict_get (group_rows c headers rows cache) key [] =
   dict_get cache key [] @ map (\<lambda>row. make_row_data headers row 0 [])
      (filter (\<lambda>row. notna (row ! c) \<and> py_strip (py_str (row ! c)) = key) rows)"
  by (induction rows arbitrary: cache)
     (auto simp: Let_def dict_get_dict_set dict_has_def dict_get_def map_of_dict_set
           split: option.splits)

lemma preload_files_get:
  "dict_get (preload_files files cache) key [] =
   dict_get cache key [] @ concat (map (file_records key) files)"
  by (induction files arbitrary: cache)
     (auto simp: file_records_def group_rows_get split: option.splits)

text \<open>
  C9. The index built from the linked files is one map shared by all of them: what a
  row's lookup returns for a key is the concatenation, over the files in selection
  order, of the records of each file whose trimmed \<^verbatim>\<open>PARENT_KEY\<close> is that key, in
  file order.
\<close>

theorem auxiliary_index_merges_files:
  "get_additional_data_for_key_optimized (preload_additional_data self files) key_value
     = concat (map (file_records (py_strip (py_str key_value))) files)"
  by (simp add: get_additional_data_for_key_optimized_def preload_additional_data_def
                preload_files_get) (simp add: dict_get_def)

subsection \<open>Column mapping\<close>

lemma find_in_row_None:
  "find_in_row p cells i = None \<longleftrightarrow> (\<forall>j < length cells. \<not> cell_is p (cells ! j))"
  by (induction cells arbitrary: i) (auto simp: nth_Cons less_Suc_eq_0_disj split: nat.splits)

lemma find_in_row_Some:
  "find_in_row p cells i = Some c \<longleftrightarrow>
     (\<exists>j < length cells. c = i + j \<and> cell_is p (cells ! j) \<and> (\<forall>j' < j. \<not> cell_is p (cells ! j')))"
proof (induction cells arbitrary: i)
  case Nil
  then show ?case by simp
next
  case (Cons x xs)
  show ?case
  proof (cases "cell_is p x")
    case True
    have "j = 0" if "\<forall>j' < j. \<not> cell_is p ((x # xs) ! j')" for j
      using that True by (cases j) auto
    then show ?thesis
      using True by auto
  next
    case False
    show ?thesis
    proof
      assume "find_in_row p (x # xs) i = Some c"
      with False Cons obtain j where j: "j < length xs" "c = i + 1 + j" "cell_is p (xs ! j)"
          "\<forall>j' < j. \<not> cell_is p (xs ! j')"
        by auto
      show "\<exists>j<length (x # xs). c = i + j \<and> cell_is p ((x # xs) ! j)
              \<and> (\<forall>j'<j. \<not> cell_is p ((x # xs) ! j'))"
        using j False by (intro exI[of _ "Suc j"]) (auto simp: nth_Cons split: nat.splits)
    next
      assume "\<exists>j<length (x # xs). c = i + j \<and> cell_is p ((x # xs) ! j)
                \<and> (\<forall>j'<j. \<not> cell_is p ((x # xs) ! j'))"
      then obtain j where j: "j < length (x # xs)" "c = i + j" "cell_is p ((x # xs) ! j)"
          "\<forall>j'<j. \<not> cell_is p ((x # xs) ! j')"
        by blast
      with False obtain k where k: "j = Suc k" by (cases j) auto
      have "\<forall>j'<k. \<not> cell_is p (xs ! j')"
      proof (intro allI impI)
        fix j' assume "j' < k"
        then have "Suc j' < j" using k by simp
        with j(4) have "\<not> cell_is p ((x # xs) ! Suc j')" by blast
        then show "\<not> cell_is p (xs ! j')" by simp
      qed
      with j k have "\<exists>j<length xs. c = (i + 1) + j \<and> cell_is p (xs ! j)
                      \<and> (\<forall>j'<j. \<not> cell_is p (xs ! j'))"
        by (intro exI[of _ k]) auto
      then have "find_in_row p xs (i + 1) = Some c"
        using Cons.IH by blast
      with False show "find_in_row p (x # xs) i = Some c" by simp
    qed
  qed
qed

lemma find_in_rows_None:
  "find_in_rows p rows = None \<longleftrightarrow>
     (\<forall>r < length rows. \<forall>c < length (rows ! r). \<not> cell_is p (rows ! r ! c))"
proof (induction rows)
  case Nil
  then show ?case by simp
next
  case (Cons row rows)
  have "find_in_rows p (row # rows) = None
          \<longleftrightarrow> find_in_row p row 0 = None \<and> find_in_rows p rows = None"
    by (simp split: option.splits)
  then show ?case
    by (simp add: Cons.IH find_in_row_None All_less_Suc2)
qed

lemma find_in_rows_SomeI:
  assumes "r < length rows" and "c < length (rows ! r)" and "cell_is p (rows ! r ! c)"
    and "\<forall>c' < c. \<not> cell_is p (rows ! r ! c')"
    and "\<forall>r' < r. \<forall>c' < length (rows ! r'). \<not> cell_is p (rows ! r' ! c')"
  shows "find_in_rows p rows = Some c"
  using assms
proof (induction rows arbitrary: r)
  case Nil
  then show ?case by simp
next
  case (Cons row rows)
  show ?case
  proof (cases r)
    case 0
    with Cons.prems(2,3,4) have "c < length row" "cell_is p (row ! c)"
        "\<forall>c' < c. \<not> cell_is p (row ! c')"
      by simp_all
    then have "find_in_row p row 0 = Some c"
      using find_in_row_Some[of p row 0 c] by auto
    then show ?thesis by simp
  next
    case (Suc k)
    have "\<forall>c' < length row. \<not> cell_is p (row ! c')"
      using Cons.prems(5)[rule_format, of 0] Suc by simp
    then have "find_in_row p row 0 = None"
      by (simp add: find_in_row_None)
    moreover have "find_in_rows p rows = Some c"
    proof (rule Cons.IH[of k])
      show "k < length rows" using Cons.prems(1) Suc by simp
      show "c < length (rows ! k)" using Cons.prems(2) Suc by simp
      show "cell_is p (rows ! k ! c)" using Cons.prems(3) Suc by simp
      show "\<forall>c' < c. \<not> cell_is p (rows ! k ! c')" using Cons.prems(4) Suc by simp
      show "\<forall>r' < k. \<forall>c' < length (rows ! r'). \<not> cell_is p (rows ! r' ! c')"
      proof (intro allI impI)
        fix r' c' assume a: "r' < k" "c' < length (rows ! r')"
        then show "\<not> cell_is p (rows ! r' ! c')"
          using Cons.prems(5)[rule_format, of "Suc r'" c'] Suc by simp
      qed
    qed
    ultimately show ?thesis by simp
  qed
qed

lemma find_in_rows_SomeD:
  assumes "find_in_rows p rows = Some c"
  shows "\<exists>r < length rows. c < length (rows ! r) \<and> cell_is p (rows ! r ! c)
           \<and> (\<forall>c' < c. \<not> cell_is p (rows ! r ! c'))
           \<and> (\<forall>r' < r. \<forall>c' < length (rows ! r'). \<not> cell_is p (rows ! r' ! c'))"
  using assms
proof (induction rows)
  case Nil
  then show ?case by simp
next
  case (Cons row rows)
  show ?case
  proof (cases "find_in_row p row 0")
    case None
    with Cons.prems have "find_in_rows p rows = Some c" by simp
    from Cons.IH[OF this] obtain r where r: "r < length rows" "c < length (rows ! r)"
        "cell_is p (rows ! r ! c)" "\<forall>c' < c. \<not> cell_is p (rows ! r ! c')"
        "\<forall>r' < r. \<forall>c' < length (rows ! r'). \<not> cell_is p (rows ! r' ! c')"
      by blast
    from None have none: "\<forall>j < length row. \<not> cell_is p (row ! j)"
      by (simp add: find_in_row_None)
    have 1: "Suc r < length (row # rows)" using r(1) by simp
    have 2: "c < length ((row # rows) ! Suc r)" using r(2) by simp
    have 3: "cell_is p ((row # rows) ! Suc r ! c)" using r(3) by simp
    have 4: "\<forall>c' < c. \<not> cell_is p ((row # rows) ! Suc r ! c')" using r(4) by simp
    have 5: "\<forall>r' < Suc r. \<forall>c' < length ((row # rows) ! r'). \<not> cell_is p ((row # rows) ! r' ! c')"
    proof (intro allI impI)
      fix r' c' assume a: "r' < Suc r" "c' < length ((row # rows) ! r')"
      show "\<not> cell_is p ((row # rows) ! r' ! c')"
      proof (cases r')
        case 0
        with a none show ?thesis by simp
      next
        case (Suc k)
        with a show ?thesis using r(5)[rule_format, of k c'] by simp
      qed
    qed
    from 1 2 3 4 5 show ?thesis by blast
  next
    case (Some c0)
    with Cons.prems have "find_in_row p row 0 = Some c" by simp
    then obtain j where "j < length row" "c = 0 + j" "cell_is p (row ! j)"
        "\<forall>j' < j. \<not> cell_is p (row ! j')"
      using find_in_row_Some[of p row 0 c] by blast
    then have c: "c < length row" "cell_is p (row ! c)" "\<forall>j' < c. \<not> cell_is p (row ! j')"
      by simp_all
    have 1: "0 < length (row # rows)" by simp
    have 2: "c < length ((row # rows) ! 0)" using c(1) by simp
    have 3: "cell_is p ((row # rows) ! 0 ! c)" using c(2) by simp
    have 4: "\<forall>c' < c. \<not> cell_is p ((row # rows) ! 0 ! c')" using c(3) by simp
    have 5: "\<forall>r' < (0::nat). \<forall>c' < length ((row # rows) ! r'). \<not> cell_is p ((row # rows) ! r' ! c')"
      by simp
    from 1 2 3 4 5 show ?thesis by blast
  qed
qed

text \<open>The loop's result against the reading-order description of the first match.\<close>

lemma find_in_rows_first_match:
  "find_in_rows p (take (min 4 (length df)) df) = Some c \<longleftrightarrow> (\<exists>r. first_match df p r c)"
proof
  let ?R = "take (min 4 (length df)) df"
  assume "find_in_rows p ?R = Some c"
  from find_in_rows_SomeD[OF this] obtain r where r: "r < length ?R" "c < length (?R ! r)"
      "cell_is p (?R ! r ! c)" "\<forall>c' < c. \<not> cell_is p (?R ! r ! c')"
      "\<forall>r' < r. \<forall>c' < length (?R ! r'). \<not> cell_is p (?R ! r' ! c')"
    by blast
  from r(1) have rb: "r < 4" "r < length df" by simp_all
  then have nth: "?R ! r = df ! r" by simp
  have "cell_matches df p r c"
    using r(2,3) rb nth by (simp add: cell_matches_def)
  moreover have "\<forall>c' < c. \<not> cell_matches df p r c'"
    using r(4) nth by (simp add: cell_matches_def)
  moreover have "\<forall>r' < r. \<forall>c'. \<not> cell_matches df p r' c'"
  proof (intro allI impI)
    fix r' c' assume a: "r' < r"
    then have "r' < length ?R" using r(1) by simp
    then have "?R ! r' = df ! r'" by simp
    then show "\<not> cell_matches df p r' c'"
      using r(5)[rule_format, of r' c'] a by (auto simp: cell_matches_def)
  qed
  ultimately have "first_match df p r c"
    using rb by (simp add: first_match_def)
  then show "\<exists>r. first_match df p r c" ..
next
  let ?R = "take (min 4 (length df)) df"
  assume "\<exists>r. first_match df p r c"
  then obtain r where fm: "first_match df p r c" ..
  then have rb: "r < 4" "r < length df" "c < length (df ! r)" "cell_is p (df ! r ! c)"
    and cs: "\<forall>c' < c. \<not> cell_matches df p r c'"
    and rs: "\<forall>r' < r. \<forall>c'. \<not> cell_matches df p r' c'"
    by (simp_all add: first_match_def cell_matches_def)
  have len: "r < length ?R" using rb by simp
  then have nth: "?R ! r = df ! r" by simp
  show "find_in_rows p ?R = Some c"
  proof (rule find_in_rows_SomeI[of r])
    show "r < length ?R" by (rule len)
    show "c < length (?R ! r)" using rb nth by simp
    show "cell_is p (?R ! r ! c)" using rb nth by simp
    show "\<forall>c' < c. \<not> cell_is p (?R ! r ! c')"
    proof (intro allI impI)
      fix c' assume "c' < c"
      with cs have "\<not> cell_matches df p r c'" by blast
      with \<open>c' < c\<close> rb show "\<not> cell_is p (?R ! r ! c')"
        using nth by (simp add: cell_matches_def)
    qed
    show "\<forall>r' < r. \<forall>c' < length (?R ! r'). \<not> cell_is p (?R ! r' ! c')"
    proof (intro allI impI)
      fix r' c' assume a: "r' < r" "c' < length (?R ! r')"
      then have "r' < length ?R" using len by simp
      then have n': "?R ! r' = df ! r'" and l': "r' < length df" by simp_all
      from rs a(1) have "\<not> cell_matches df p r' c'" by blast
      with a(2) n' l' show "\<not> cell_is p (?R ! r' ! c')"
        by (simp add: cell_matches_def)
    qed
  qed
qed

lemma find_in_rows_no_match:
  "find_in_rows p (take (min 4 (length df)) df) = None
     \<longleftrightarrow> (\<forall>r < 4. \<forall>c. \<not> cell_matches df p r c)"
proof -
  let ?R = "take (min 4 (length df)) df"
  have "(\<forall>r < length ?R. \<forall>c < length (?R ! r). \<not> cell_is p (?R ! r ! c))
          \<longleftrightarrow> (\<forall>r < 4. \<forall>c. \<not> cell_matches df p r c)"
    by (auto simp: cell_matches_def)
  then show ?thesis
    by (simp only: find_in_rows_None)
qed

lemma mapping_loop_map_of:
  "map_of (fst (mapping_loop df ps m w)) p =
     (if p \<in> set ps
      then (case find_in_rows p (take (min 4 (length df)) df) of
              Some c \<Rightarrow> Some c
            | None \<Rightarrow> map_of m p)
      else map_of m p)"
  by (induction df ps m w rule: mapping_loop.induct)
     (auto simp: Let_def map_of_dict_set split: option.splits)

lemma mapping_loop_printed:
  "snd (mapping_loop df ps m w) =
     w @ map not_found_warning
           (filter (\<lambda>p. find_in_rows p (take (min 4 (length df)) df) = None) ps)"
  by (induction df ps m w rule: mapping_loop.induct)
     (auto simp: Let_def split: option.splits)

lemma not_found_warning_inj:
  "not_found_warning p = not_found_warning q \<longleftrightarrow> p = q"
  by (simp add: not_found_warning_def)

lemma find_column_mapping_fresh:
  assumes "\<not> dict_truthy (column_mapping_cache self)"
  shows "fst (find_column_mapping self df ps) = fst (mapping_loop df ps [] [])"
    and "snd (snd (find_column_mapping self df ps)) = snd (mapping_loop df ps [] [])"
  using assms by (simp_all add: find_column_mapping_def split: prod.splits)

lemma find_column_mapping_cached:
  assumes "dict_truthy (column_mapping_cache self)"
  shows "find_column_mapping self df ps = (the (column_mapping_cache self), self, [])"
  using assms by (simp add: find_column_mapping_def)

text \<open>
  On a converter that holds no non-empty mapping the call does the scan: the mapping
  binds a placeholder of the set to column \<open>c\<close> exactly when the first cell, in reading
  order over rows 0 to 3, whose trimmed text equals the placeholder's name up to case
  stands in column \<open>c\<close>; the placeholder is absent from the mapping exactly when no
  cell of those rows matches, and exactly then its warning line is printed.
\<close>

lemma find_column_mapping_scans:
  assumes "\<not> dict_truthy (column_mapping_cache self)"
    and "placeholder \<in> set placeholders"
  shows "(\<forall>c. map_of (fst (find_column_mapping self df placeholders)) placeholder = Some c
              \<longleftrightarrow> (\<exists>r. first_match df placeholder r c))
       \<and> (map_of (fst (find_column_mapping self df placeholders)) placeholder = None
              \<longleftrightarrow> (\<forall>r < 4. \<forall>c. \<not> cell_matches df placeholder r c))
       \<and> (not_found_warning placeholder \<in> set (snd (snd (find_column_mapping self df placeholders)))
              \<longleftrightarrow> (\<forall>r < 4. \<forall>c. \<not> cell_matches df placeholder r c))"
proof -
  let ?found = "find_in_rows placeholder (take (min 4 (length df)) df)"
  have m: "map_of (fst (find_column_mapping self df placeholders)) placeholder = ?found"
    using assms
    by (simp add: find_column_mapping_fresh(1) mapping_loop_map_of split: option.splits)
  have "not_found_warning placeholder \<in> set (snd (snd (find_column_mapping self df placeholders)))
          \<longleftrightarrow> ?found = None"
    using assms
    by (auto simp: find_column_mapping_fresh(2) mapping_loop_printed not_found_warning_inj)
  then show ?thesis
    by (simp only: m find_in_rows_first_match find_in_rows_no_match) simp
qed

text \<open>
  C4. The mapping of a first workbook stays on the converter and answers for the next
  one. A new converter maps the placeholders \<open>name\<close> and \<open>zip\<close> on a workbook whose
  header row is \<open>id, name\<close>: \<open>name\<close> is bound to column 1, and that mapping is now
  cached. The same converter is then given a workbook whose header row is
  \<open>name, id\<close>: the first cell in reading order carries the name of the placeholder
  and stands in column 0, and the cell in column 1 does not carry it, yet the call
  returns the binding to column 1; and \<open>zip\<close>, which no cell of the second workbook
  carries, gets no warning.
\<close>

theorem find_column_mapping_stale_cache:
  "cell_matches [[PStr ''name'', PStr ''id'']] ''name'' 0 0
   \<and> \<not> cell_matches [[PStr ''name'', PStr ''id'']] ''name'' 0 1
   \<and> \<not> cell_matches [[PStr ''name'', PStr ''id'']] ''zip'' 0 0
   \<and> \<not> cell_matches [[PStr ''name'', PStr ''id'']] ''zip'' 0 1
   \<and> fst (find_column_mapping
            \<lparr>placeholders_cache = None, additional_data_cache = [],
             column_mapping_cache = None, image_folder_path = None,
      find_placeholders_memo = None\<rparr>
            [[PStr ''id'', PStr ''name'']] [''name'', ''zip''])
       = [(''name'', 1)]
   \<and> find_column_mapping
         (fst (snd (find_column_mapping
            \<lparr>placeholders_cache = None, additional_data_cache = [],
             column_mapping_cache = None, image_folder_path = None,
      find_placeholders_memo = None\<rparr>
            [[PStr ''id'', PStr ''name'']] [''name'', ''zip''])))
         [[PStr ''name'', PStr ''id'']] [''name'', ''zip'']
       = ([(''name'', 1)],
          \<lparr>placeholders_cache = None, additional_data_cache = [],
           column_mapping_cache = Some [(''name'', 1)], image_folder_path = None,
      find_placeholders_memo = None\<rparr>,
          [])"
  by code_simp

subsection \<open>The final sweep\<close>


















subsection \<open>Image lookup\<close>








subsection \<open>Table population\<close>

lemma remove_data_rows_take: "remove_data_rows h rows = take h rows"
proof (induction h rows rule: remove_data_rows.induct)
  case (1 h rows)
  show ?case
  proof (cases "length rows > h")
    case True
    then have "remove_data_rows h rows = remove_data_rows h (butlast rows)"
      by (subst remove_data_rows.simps) simp
    also have "\<dots> = take h (butlast rows)"
      using 1 True by simp
    also have "\<dots> = take h rows"
      using True by (simp add: take_butlast)
    finally show ?thesis .
  next
    case False
    then show ?thesis
      by (subst remove_data_rows.simps) simp
  qed
qed

lemma length_add_rows: "length (add_rows make_row idx additional_rows) = length additional_rows"
  by (induction additional_rows arbitrary: idx) simp_all

lemma length_add_rows_raising:
  "add_rows_raising make_row idx additional_rows = Inr rows \<Longrightarrow> length rows = length additional_rows"
  by (induction additional_rows arbitrary: idx rows) (auto split: sum.splits)

lemma populate_structure_rows:
  assumes "populate_structure_assets_table table additional_rows = Inr table'"
  shows "\<exists>rows. tbl_rows table' = take 2 (tbl_rows table) @ rows
            \<and> length rows = length additional_rows"
  using assms
  by (auto simp: populate_structure_assets_table_def remove_data_rows_take
           split: sum.splits dest: length_add_rows_raising)

text \<open>
  Whenever the population of a table returns, the header rows are kept, every row
  after them is gone, and one row per record of the table's category follows. Only
  the population of the structure table can raise.
\<close>

lemma populate_kind_rows:
  assumes "populate_kind w self kind table additional_rows = Inr table'"
  shows "\<exists>rows. tbl_rows table' = take (header_rows kind) (tbl_rows table) @ rows
            \<and> length rows = length (categorized_data additional_rows (kind_category kind))"
proof (cases kind)
  case StructureTable
  with assms show ?thesis
    using populate_structure_rows[of table "categorized_data additional_rows Struct" table']
    by simp
qed (use assms in \<open>auto simp: populate_hh_member_table_def populate_savings_table_def
      populate_labor_table_def populate_debt_table_def populate_land_assets_table_def
      populate_affected_structure_table_def populate_trees_table_def populate_crops_table_def
      populate_income_loss_table_def populate_others_table_def
      remove_data_rows_take length_add_rows\<close>)

lemma populate_kind_returns:
  assumes "kind \<noteq> StructureTable"
  shows "\<exists>table'. populate_kind w self kind table additional_rows = Inr table'"
  using assms by (cases kind) simp_all

text \<open>
  C3. The structure table does not get its rows when the type of a structure is a
  number. The table has five columns, two header rows and one earlier data row, and
  there are two records: the type of the first is the number 3. The population raises
  \<^verbatim>\<open>TypeError\<close> at the first record, so the second record is never appended. With
  the same type written as text the table gets its two rows.
\<close>

theorem populate_structure_assets_table_raises:
  "populate_structure_assets_table
     (Tbl 5 [new_row 5, new_row 5, new_row 5])
     [[(''asset_struct_type'', PInt 3), (''asset_struct_area'', PInt 40)],
      [(''asset_struct_type'', PStr ''Shed''), (''asset_struct_area'', PInt 12)]]
     = Inl (TypeError ''sequence item 0: expected str instance, int found'')
   \<and> populate_structure_assets_table
     (Tbl 5 [new_row 5, new_row 5, new_row 5])
     [[(''asset_struct_type'', PStr ''3''), (''asset_struct_area'', PInt 40)],
      [(''asset_struct_type'', PStr ''Shed''), (''asset_struct_area'', PInt 12)]]
     = Inr (Tbl 5 [new_row 5, new_row 5,
                   [set_cell_text ''1'', set_cell_text ''40'', set_cell_text '''',
                    set_cell_text '''', set_cell_text ''3''],
                   [set_cell_text ''2'', set_cell_text ''12'', set_cell_text '''',
                    set_cell_text '''', set_cell_text ''Shed'']])"
  by code_simp

end
